theory Spec2Isabelle
  imports Complex_Main
begin

section \<open>JavaScript numbers\<close>

text \<open>
  The coordinates and lengths of \<^verbatim>\<open>triangle.js\<close> are JavaScript numbers. A finite
  number is read as a real; the three non-finite values are kept, because the program
  produces them: \<^verbatim>\<open>Math.sqrt\<close> of a negative number is \<^verbatim>\<open>NaN\<close>, and a division by
  zero is \<^verbatim>\<open>NaN\<close> or an infinity. Signed zeros are not distinguished: every divisor of
  the program that can be zero is a square root or a sum of squares, hence \<^verbatim>\<open>+0\<close>.

  Arithmetic on finite numbers is exact here, while doubles round, overflow to an
  infinity and underflow to zero. The model and the program therefore agree where every
  operation of the program is exact. That is the case for all evaluations at concrete
  inputs below, whose intermediate values are small integers or become \<^verbatim>\<open>NaN\<close>, and it
  does not matter for statements about which branch throws and which vertex is written.
  A statement about the values that a transform or a constructor computes is made for
  integer inputs of bounded size on which the doubles are exact too
  (\<open>small_int\<close>, \<open>exact_flip\<close> below).
\<close>

datatype jsnum = Fin real | PInf | NInf | NaN

definition inf_of_sign :: "real \<Rightarrow> jsnum" where
  "inf_of_sign s = (if s = 0 then NaN else if 0 < s then PInf else NInf)"

fun jneg :: "jsnum \<Rightarrow> jsnum" where
  "jneg (Fin a) = Fin (- a)"
| "jneg PInf = NInf"
| "jneg NInf = PInf"
| "jneg NaN = NaN"

fun jadd :: "jsnum \<Rightarrow> jsnum \<Rightarrow> jsnum" where
  "jadd (Fin a) (Fin b) = Fin (a + b)"
| "jadd NaN _ = NaN"
| "jadd _ NaN = NaN"
| "jadd PInf NInf = NaN"
| "jadd NInf PInf = NaN"
| "jadd PInf _ = PInf"
| "jadd _ PInf = PInf"
| "jadd NInf _ = NInf"
| "jadd _ NInf = NInf"

definition jsub :: "jsnum \<Rightarrow> jsnum \<Rightarrow> jsnum" where
  "jsub a b = jadd a (jneg b)"

fun jmul :: "jsnum \<Rightarrow> jsnum \<Rightarrow> jsnum" where
  "jmul (Fin a) (Fin b) = Fin (a * b)"
| "jmul NaN _ = NaN"
| "jmul _ NaN = NaN"
| "jmul (Fin a) PInf = inf_of_sign a"
| "jmul (Fin a) NInf = inf_of_sign (- a)"
| "jmul PInf (Fin b) = inf_of_sign b"
| "jmul NInf (Fin b) = inf_of_sign (- b)"
| "jmul PInf PInf = PInf"
| "jmul PInf NInf = NInf"
| "jmul NInf PInf = NInf"
| "jmul NInf NInf = PInf"

fun jdiv :: "jsnum \<Rightarrow> jsnum \<Rightarrow> jsnum" where
  "jdiv (Fin a) (Fin b) = (if b \<noteq> 0 then Fin (a / b) else inf_of_sign a)"
| "jdiv NaN _ = NaN"
| "jdiv _ NaN = NaN"
| "jdiv (Fin a) PInf = Fin 0"
| "jdiv (Fin a) NInf = Fin 0"
| "jdiv PInf (Fin b) = (if 0 \<le> b then PInf else NInf)"
| "jdiv NInf (Fin b) = (if 0 \<le> b then NInf else PInf)"
| "jdiv PInf PInf = NaN"
| "jdiv PInf NInf = NaN"
| "jdiv NInf PInf = NaN"
| "jdiv NInf NInf = NaN"

text \<open>\<^verbatim>\<open>x ** 2\<close> and \<^verbatim>\<open>Math.pow(x, 2)\<close>.\<close>

definition jsq :: "jsnum \<Rightarrow> jsnum" where
  "jsq a = jmul a a"

fun jsqrt :: "jsnum \<Rightarrow> jsnum" where
  "jsqrt (Fin a) = (if a < 0 then NaN else Fin (sqrt a))"
| "jsqrt PInf = PInf"
| "jsqrt NInf = NaN"
| "jsqrt NaN = NaN"

fun jcos :: "jsnum \<Rightarrow> jsnum" where
  "jcos (Fin a) = Fin (cos a)"
| "jcos _ = NaN"

fun jsin :: "jsnum \<Rightarrow> jsnum" where
  "jsin (Fin a) = Fin (sin a)"
| "jsin _ = NaN"

fun jlt :: "jsnum \<Rightarrow> jsnum \<Rightarrow> bool" where
  "jlt (Fin a) (Fin b) = (a < b)"
| "jlt NaN _ = False"
| "jlt _ NaN = False"
| "jlt _ NInf = False"
| "jlt PInf _ = False"
| "jlt NInf _ = True"
| "jlt _ PInf = True"

fun jle :: "jsnum \<Rightarrow> jsnum \<Rightarrow> bool" where
  "jle (Fin a) (Fin b) = (a \<le> b)"
| "jle NaN _ = False"
| "jle _ NaN = False"
| "jle NInf _ = True"
| "jle _ PInf = True"
| "jle _ NInf = False"
| "jle PInf _ = False"

definition jgt :: "jsnum \<Rightarrow> jsnum \<Rightarrow> bool" where
  "jgt a b = jlt b a"

definition jge :: "jsnum \<Rightarrow> jsnum \<Rightarrow> bool" where
  "jge a b = jle b a"

text \<open>Strict inequality \<^verbatim>\<open>!==\<close> of two numbers: \<^verbatim>\<open>NaN\<close> differs from itself.\<close>

definition jneq :: "jsnum \<Rightarrow> jsnum \<Rightarrow> bool" where
  "jneq a b = (a = NaN \<or> b = NaN \<or> a \<noteq> b)"

text \<open>\<^verbatim>\<open>a || b\<close> on numbers: zero and \<^verbatim>\<open>NaN\<close> are falsy.\<close>

fun truthy :: "jsnum \<Rightarrow> bool" where
  "truthy (Fin a) = (a \<noteq> 0)"
| "truthy NaN = False"
| "truthy _ = True"

definition jor :: "jsnum \<Rightarrow> jsnum \<Rightarrow> jsnum" where
  "jor a b = (if truthy a then a else b)"

definition isFin :: "jsnum \<Rightarrow> bool" where
  "isFin a = (case a of Fin _ \<Rightarrow> True | _ \<Rightarrow> False)"


section \<open>Strings\<close>

text \<open>
  Vertex and side names are taken to be ASCII. \<^verbatim>\<open>name_segments\<close> is
  \<^verbatim>\<open>[...s.matchAll(/[A-Z][^A-Z]*/g)].map(([match]) => match)\<close>: every upper-case letter
  starts a match, which runs up to the next upper-case letter; what precedes the first
  upper-case letter is skipped.
\<close>

definition is_upper :: "char \<Rightarrow> bool" where
  "is_upper c = (65 \<le> (of_char c :: nat) \<and> (of_char c :: nat) \<le> 90)"

definition is_lower :: "char \<Rightarrow> bool" where
  "is_lower c = (97 \<le> (of_char c :: nat) \<and> (of_char c :: nat) \<le> 122)"

definition toLowerCase :: "string \<Rightarrow> string" where
  "toLowerCase s =
     map (\<lambda>c. if is_upper c then ''abcdefghijklmnopqrstuvwxyz'' ! ((of_char c :: nat) - 65)
              else c) s"

definition toUpperCase :: "string \<Rightarrow> string" where
  "toUpperCase s =
     map (\<lambda>c. if is_lower c then ''ABCDEFGHIJKLMNOPQRSTUVWXYZ'' ! ((of_char c :: nat) - 97)
              else c) s"

fun name_segments :: "string \<Rightarrow> string list" where
  "name_segments [] = []"
| "name_segments (c # cs) =
     (if is_upper c then (c # takeWhile (\<lambda>d. \<not> is_upper d) cs) # name_segments cs
      else name_segments cs)"


section \<open>The vertex set\<close>

record point =
  px :: jsnum
  py :: jsnum
  pname :: string

text \<open>
  \<^verbatim>\<open>#points\<close> is an array of three point objects. The code compares points by identity;
  a point is referred to by its index in the array.
\<close>

type_synonym triangle = "point list"

datatype error =
    InvalidName
  | MalformedSideName
  | UnknownVertex
  | ConflictingConstraint
  | Degenerate
  | InvalidAngle
  | InvalidLength
  | JsTypeError

text \<open>
  Every \<^verbatim>\<open>throw\<close> of the source raises a \<^verbatim>\<open>TypeError\<close>; the constructors above name
  the throw sites. \<^const>\<open>JsTypeError\<close> is the error the runtime raises when a property of
  \<^verbatim>\<open>undefined\<close> is read.
\<close>

definition createDefaultTrianglePoints :: "string \<Rightarrow> error + triangle" where
  "createDefaultTrianglePoints nm =
     (case name_segments nm of
        [A, B, C] \<Rightarrow>
          Inr [\<lparr>px = Fin 70, py = Fin 20, pname = A\<rparr>,
               \<lparr>px = Fin 20, py = Fin 120, pname = B\<rparr>,
               \<lparr>px = Fin 120, py = Fin 120, pname = C\<rparr>]
      | _ \<Rightarrow> Inl InvalidName)"

text \<open>
  The constructor with a name given as a string; rendering and the allocation of a
  default name on a canvas are outside the model.
\<close>

definition Triangle :: "string \<Rightarrow> error + triangle" where
  "Triangle nm = createDefaultTrianglePoints nm"

text \<open>Destructuring \<^verbatim>\<open>[p1, p2] = xs\<close>: a missing element is \<^verbatim>\<open>undefined\<close>.\<close>

fun elem :: "'a list \<Rightarrow> nat \<Rightarrow> 'a option" where
  "elem [] _ = None"
| "elem (v # vs) 0 = Some v"
| "elem (v # vs) (Suc n) = elem vs n"

definition getPointsByOppositeVertex :: "triangle \<Rightarrow> string \<Rightarrow> error + nat list" where
  "getPointsByOppositeVertex t side =
     (let vertex = toUpperCase side in
      if \<not> list_ex (\<lambda>p. pname p = vertex) t then Inl UnknownVertex
      else Inr (filter (\<lambda>i. pname (t ! i) \<noteq> vertex) [0..<length t]))"

definition getPointsByAdjacentVertex :: "triangle \<Rightarrow> string \<Rightarrow> error + nat list" where
  "getPointsByAdjacentVertex t side =
     (let vertexes = name_segments side in
      if length vertexes \<noteq> 2 then Inl MalformedSideName
      else let points = filter (\<lambda>i. pname (t ! i) \<in> set vertexes) [0..<length t] in
        if length points \<noteq> 2 then Inl UnknownVertex else Inr points)"

definition getPointsByName :: "triangle \<Rightarrow> string \<Rightarrow> error + nat list" where
  "getPointsByName t side =
     (if list_ex is_lower side then getPointsByOppositeVertex t side
      else getPointsByAdjacentVertex t side)"

definition point_distance :: "point \<Rightarrow> point \<Rightarrow> jsnum" where
  "point_distance p1 p2 =
     jsqrt (jadd (jsq (jsub (px p2) (px p1))) (jsq (jsub (py p2) (py p1))))"

definition getSideLength :: "triangle \<Rightarrow> string \<Rightarrow> error + jsnum" where
  "getSideLength t nm =
     (case getPointsByName t nm of
        Inl e \<Rightarrow> Inl e
      | Inr ps \<Rightarrow>
          (case (elem ps 0, elem ps 1) of
             (Some i, Some j) \<Rightarrow> Inr (point_distance (t ! i) (t ! j))
           | _ \<Rightarrow> Inl JsTypeError))"


section \<open>Transforms\<close>

text \<open>
  A mutating method is a function from the vertex set before the call to the error it
  throws, if any, and the vertex set after the call: a \<^verbatim>\<open>throw\<close> does not undo the
  assignments made before it.
\<close>

type_synonym outcome = "error option \<times> triangle"

fun findIndex :: "('a \<Rightarrow> bool) \<Rightarrow> 'a list \<Rightarrow> nat option" where
  "findIndex P [] = None"
| "findIndex P (v # vs) =
     (if P v then Some 0 else map_option Suc (findIndex P vs))"

definition movePoint :: "string \<Rightarrow> jsnum \<Rightarrow> jsnum \<Rightarrow> triangle \<Rightarrow> outcome" where
  "movePoint nm deltaX deltaY t =
     (case findIndex (\<lambda>p. pname p = nm) t of
        None \<Rightarrow> (Some UnknownVertex, t)
      | Some i \<Rightarrow>
          (None, t[i := (t ! i)\<lparr>px := jadd (px (t ! i)) deltaX,
                                 py := jadd (py (t ! i)) deltaY\<rparr>]))"

definition move :: "jsnum \<Rightarrow> jsnum \<Rightarrow> triangle \<Rightarrow> outcome" where
  "move deltaX deltaY t =
     (None, map (\<lambda>p. p\<lparr>px := jadd (px p) deltaX, py := jadd (py p) deltaY\<rparr>) t)"

text \<open>\<^verbatim>\<open>const [A, B, C] = this.#points\<close>; the array always holds three points.\<close>

definition centerX :: "triangle \<Rightarrow> jsnum" where
  "centerX t = jdiv (jadd (jadd (px (t ! 0)) (px (t ! 1))) (px (t ! 2))) (Fin 3)"

definition centerY :: "triangle \<Rightarrow> jsnum" where
  "centerY t = jdiv (jadd (jadd (py (t ! 0)) (py (t ! 1))) (py (t ! 2))) (Fin 3)"

definition scale :: "jsnum \<Rightarrow> triangle \<Rightarrow> outcome" where
  "scale factor t =
     (let cx = centerX t; cy = centerY t in
      (None, map (\<lambda>p. p\<lparr>px := jadd cx (jmul (jsub (px p) cx) (jsub factor (Fin 1))),
                          py := jadd cy (jmul (jsub (py p) cy) (jsub factor (Fin 1)))\<rparr>) t))"

text \<open>\<^verbatim>\<open>rotate(angle)\<close>; the name \<open>rotate\<close> is taken by a list function.\<close>

definition rotate_t :: "jsnum \<Rightarrow> triangle \<Rightarrow> outcome" where
  "rotate_t angle t =
     (let cx = centerX t; cy = centerY t;
          radian = jdiv (jmul angle (Fin pi)) (Fin 180) in
      (None, map (\<lambda>p.
         let dx = jsub (px p) cx; dy = jsub (py p) cy in
         p\<lparr>px := jsub (jadd cx (jmul dx (jcos radian))) (jmul dy (jsin radian)),
           py := jadd (jadd cy (jmul dx (jsin radian))) (jmul dy (jcos radian))\<rparr>) t))"

record line =
  la :: jsnum
  lb :: jsnum
  lc :: jsnum

definition flip_point :: "line \<Rightarrow> point \<Rightarrow> point" where
  "flip_point l p =
     (let a = la l; b = lb l; c = lc l; x = px p; y = py p;
          denominator = jadd (jmul a a) (jmul b b);
          x1 = jdiv (jsub (jsub (jmul (jmul b b) x) (jmul (jmul a b) y)) (jmul a c)) denominator;
          y1 = jdiv (jsub (jsub (jmul (jmul a a) y) (jmul (jmul a b) x)) (jmul b c)) denominator
      in p\<lparr>px := jsub (jmul (Fin 2) x1) x, py := jsub (jmul (Fin 2) y1) y\<rparr>)"

definition flip :: "line \<Rightarrow> triangle \<Rightarrow> outcome" where
  "flip l t = (None, map (flip_point l) t)"


section \<open>Sorting\<close>

text \<open>
  \<^verbatim>\<open>Array.prototype.sort\<close> is stable. With a comparison function \<^verbatim>\<open>cmp\<close>, an element
  \<^verbatim>\<open>v\<close> goes before \<^verbatim>\<open>w\<close> when \<^verbatim>\<open>cmp(v, w) < 0\<close>; a result of zero or \<^verbatim>\<open>NaN\<close> keeps the
  order of the array. Insertion from the left computes that order whenever the comparison
  function is consistent, as the two comparison functions of the program are on points
  with finite coordinates; for an inconsistent one the language leaves the order to the
  implementation.
\<close>

fun insert_by :: "('a \<Rightarrow> 'a \<Rightarrow> bool) \<Rightarrow> 'a \<Rightarrow> 'a list \<Rightarrow> 'a list" where
  "insert_by before v [] = [v]"
| "insert_by before v (w # ws) =
     (if before v w then v # w # ws else w # insert_by before v ws)"

definition sort_by :: "('a \<Rightarrow> 'a \<Rightarrow> bool) \<Rightarrow> 'a list \<Rightarrow> 'a list" where
  "sort_by before vs = foldl (\<lambda>acc v. insert_by before v acc) [] vs"

definition sort_cmp :: "('a \<Rightarrow> 'a \<Rightarrow> jsnum) \<Rightarrow> 'a list \<Rightarrow> 'a list" where
  "sort_cmp cmp vs = sort_by (\<lambda>v w. jlt (cmp v w) (Fin 0)) vs"

text \<open>
  Without a comparison function, \<^verbatim>\<open>sort()\<close> converts the elements to strings and
  compares the strings by code units.
\<close>

fun str_lt :: "string \<Rightarrow> string \<Rightarrow> bool" where
  "str_lt [] [] = False"
| "str_lt [] (d # ds) = True"
| "str_lt (c # cs) [] = False"
| "str_lt (c # cs) (d # ds) =
     ((of_char c :: nat) < of_char d \<or> (c = d \<and> str_lt cs ds))"

definition digit_char :: "nat \<Rightarrow> char" where
  "digit_char d = ''0123456789'' ! d"

function digits :: "nat \<Rightarrow> string" where
  "digits n = (if n < 10 then [digit_char n] else digits (n div 10) @ [digit_char (n mod 10)])"
  by pat_completeness auto
termination
  by (relation "measure id") auto

declare digits.simps [simp del]

text \<open>
  \<^verbatim>\<open>Number::toString\<close>. An integer below \<^verbatim>\<open>1e21\<close> in absolute value is written with its
  decimal digits. The digits of any other finite number are those of the shortest decimal
  that reads back as the same double, which the reals do not determine: they are the
  parameter \<open>ts\<close>.
\<close>

definition num_to_string :: "(real \<Rightarrow> string) \<Rightarrow> jsnum \<Rightarrow> string" where
  "num_to_string ts v =
     (case v of
        NaN \<Rightarrow> ''NaN''
      | PInf \<Rightarrow> ''Infinity''
      | NInf \<Rightarrow> ''-Infinity''
      | Fin r \<Rightarrow>
          (if r = of_int \<lfloor>r\<rfloor> \<and> \<bar>r\<bar> < 10 ^ 21
           then (if r < 0 then CHR ''-'' # digits (nat (- \<lfloor>r\<rfloor>)) else digits (nat \<lfloor>r\<rfloor>))
           else ts r))"

definition sort_default :: "(real \<Rightarrow> string) \<Rightarrow> jsnum list \<Rightarrow> jsnum list" where
  "sort_default ts vs = sort_by (\<lambda>v w. str_lt (num_to_string ts v) (num_to_string ts w)) vs"

text \<open>
  \<^verbatim>\<open>const [min, mid, max] = [l1, l2, l3].sort(); if (min + mid <= max) throw ...\<close>
\<close>

definition fails_inequality :: "(real \<Rightarrow> string) \<Rightarrow> jsnum \<Rightarrow> jsnum \<Rightarrow> jsnum \<Rightarrow> bool" where
  "fails_inequality ts l1 l2 l3 =
     (let sorted = sort_default ts [l1, l2, l3];
          mn = sorted ! 0; md = sorted ! 1; mx = sorted ! 2
      in jle (jadd mn md) mx)"


section \<open>Setting side lengths\<close>

record side =
  slength :: jsnum
  spoint :: point

text \<open>
  The signed cross product of \<^verbatim>\<open>alcutePoint\<close>, which tells on which side of the line from
  \<^verbatim>\<open>(x1, y1)\<close> to \<^verbatim>\<open>(x2, y2)\<close> the point \<^verbatim>\<open>(vx, vy)\<close> lies:
  \<^verbatim>\<open>(x2 - x1) * (vy - y1) - (y2 - y1) * (vx - x1)\<close>.
\<close>

definition cross :: "jsnum \<Rightarrow> jsnum \<Rightarrow> jsnum \<Rightarrow> jsnum \<Rightarrow> jsnum \<Rightarrow> jsnum \<Rightarrow> jsnum" where
  "cross x1 y1 x2 y2 vx vy =
     jsub (jmul (jsub x2 x1) (jsub vy y1)) (jmul (jsub y2 y1) (jsub vx x1))"

definition alcutePoint :: "point \<Rightarrow> side \<Rightarrow> side \<Rightarrow> jsnum \<times> jsnum" where
  "alcutePoint vertex side1 side2 =
     (let x1 = px (spoint side1); y1 = py (spoint side1); d1 = slength side1;
          x2 = px (spoint side2); y2 = py (spoint side2); d2 = slength side2;
          distance = jsqrt (jadd (jsq (jsub x2 x1)) (jsq (jsub y2 y1)));
          a = jdiv (jadd (jsub (jsq d1) (jsq d2)) (jsq distance)) (jmul (Fin 2) distance);
          h = jsqrt (jsub (jsq d1) (jsq a));
          dx = jdiv (jsub x2 x1) distance;
          dy = jdiv (jsub y2 y1) distance;
          ix = jadd x1 (jmul a dx);
          iy = jadd y1 (jmul a dy);
          px1 = jadd ix (jmul h dy);
          py1 = jsub iy (jmul h dx);
          px2 = jsub ix (jmul h dy);
          py2 = jadd iy (jmul h dx);
          crossProduct = cross x1 y1 x2 y2 px1 py1;
          crossProductVertex = cross x1 y1 x2 y2 (px vertex) (py vertex)
      in if jgt (jmul crossProduct crossProductVertex) (Fin 0) then (px1, py1)
         else (px2, py2))"

text \<open>An entry of \<^verbatim>\<open>options\<close>; \<^verbatim>\<open>p1\<close> and \<^verbatim>\<open>p2\<close> are points or \<^verbatim>\<open>undefined\<close>.\<close>

record opt =
  oname :: string
  olength :: jsnum
  op1 :: "nat option"
  op2 :: "nat option"

text \<open>
  The argument of \<^verbatim>\<open>setSideLength\<close> is an object; it is given by its keys and values in
  the order in which \<^verbatim>\<open>for ... in\<close> enumerates them.
\<close>

fun checkAndMergeSides_loop ::
  "triangle \<Rightarrow> (string \<times> jsnum) list \<Rightarrow> opt list \<Rightarrow> error + opt list" where
  "checkAndMergeSides_loop t [] options = Inr options"
| "checkAndMergeSides_loop t ((key, len) # rest) options =
     (case getPointsByName t key of
        Inl e \<Rightarrow> Inl e
      | Inr ps \<Rightarrow>
          (let p1 = elem ps 0; p2 = elem ps 1 in
           case find (\<lambda>option. (op1 option = p1 \<and> op2 option = p2) \<or>
                               (op2 option = p1 \<and> op1 option = p2)) options of
             Some option \<Rightarrow>
               if jneq (olength option) len then Inl ConflictingConstraint
               else checkAndMergeSides_loop t rest options
           | None \<Rightarrow>
               checkAndMergeSides_loop t rest
                 (options @ [\<lparr>oname = key, olength = len, op1 = p1, op2 = p2\<rparr>])))"

definition checkAndMergeSides :: "triangle \<Rightarrow> (string \<times> jsnum) list \<Rightarrow> error + opt list" where
  "checkAndMergeSides t sides = checkAndMergeSides_loop t sides []"

text \<open>\<^verbatim>\<open>({ x: x1, y: y1 }, { x: x2, y: y2 }) => x1 - x2 || y2 - y1\<close>\<close>

definition cmp_x_then_y :: "point \<Rightarrow> point \<Rightarrow> jsnum" where
  "cmp_x_then_y p q = jor (jsub (px p) (px q)) (jsub (py q) (py p))"

text \<open>\<^verbatim>\<open>(p1, p2) => p2.y - p1.y || p2.x - p1.x\<close>\<close>

definition cmp_y_then_x :: "point \<Rightarrow> point \<Rightarrow> jsnum" where
  "cmp_y_then_x p q = jor (jsub (py q) (py p)) (jsub (px q) (px p))"

text \<open>
  \<^verbatim>\<open>slided.x = fixed.x + dx * length; slided.y = fixed.y + dy * length\<close>, with
  \<^verbatim>\<open>dx = (slided.x - fixed.x) / d\<close> and \<^verbatim>\<open>dy = (slided.y - fixed.y) / d\<close>.
\<close>

definition slide :: "triangle \<Rightarrow> nat \<Rightarrow> nat \<Rightarrow> jsnum \<Rightarrow> jsnum \<Rightarrow> triangle" where
  "slide t fixed slided d len =
     (let dx = jdiv (jsub (px (t ! slided)) (px (t ! fixed))) d;
          dy = jdiv (jsub (py (t ! slided)) (py (t ! fixed))) d
      in t[slided := (t ! slided)\<lparr>px := jadd (px (t ! fixed)) (jmul dx len),
                                    py := jadd (py (t ! fixed)) (jmul dy len)\<rparr>])"

definition set_xy :: "triangle \<Rightarrow> nat \<Rightarrow> jsnum \<times> jsnum \<Rightarrow> triangle" where
  "set_xy t i xy = t[i := (t ! i)\<lparr>px := fst xy, py := snd xy\<rparr>]"

definition setOneSideLength :: "(real \<Rightarrow> string) \<Rightarrow> opt \<Rightarrow> triangle \<Rightarrow> outcome" where
  "setOneSideLength ts option t =
     (case op1 option of
        None \<Rightarrow> (Some JsTypeError, t)
      | Some p1 \<Rightarrow>
     (case getSideLength t (toLowerCase (pname (t ! p1))) of
        Inl e \<Rightarrow> (Some e, t)
      | Inr l1 \<Rightarrow>
     (case op2 option of
        None \<Rightarrow> (Some JsTypeError, t)
      | Some p2 \<Rightarrow>
     (case getSideLength t (toLowerCase (pname (t ! p2))) of
        Inl e \<Rightarrow> (Some e, t)
      | Inr l2 \<Rightarrow>
          if fails_inequality ts (olength option) l1 l2 then (Some Degenerate, t)
          else
            (let sorted = sort_cmp (\<lambda>i j. cmp_x_then_y (t ! i) (t ! j)) [p1, p2];
                 fixed = sorted ! 0; slided = sorted ! 1;
                 d = jsqrt (jadd (jsq (jsub (px (t ! p1)) (px (t ! p2))))
                                 (jsq (jsub (py (t ! p1)) (py (t ! p2)))));
                 t1 = slide t fixed slided d (olength option)
             in case find (\<lambda>i. i \<noteq> p1 \<and> i \<noteq> p2) [0..<length t1] of
                  None \<Rightarrow> (Some JsTypeError, t1)
                | Some left \<Rightarrow>
                    (None, set_xy t1 left
                       (alcutePoint (t1 ! left)
                          \<lparr>slength = l1, spoint = t1 ! p2\<rparr>
                          \<lparr>slength = l2, spoint = t1 ! p1\<rparr>)))))))"


text \<open>\<^verbatim>\<open>option.p1 === vertex ? option.p2 : option.p1\<close>\<close>

definition other_end :: "opt \<Rightarrow> nat option \<Rightarrow> nat option" where
  "other_end option vertex = (if op1 option = vertex then op2 option else op1 option)"

definition setTwoSidesLength :: "(real \<Rightarrow> string) \<Rightarrow> opt list \<Rightarrow> triangle \<Rightarrow> outcome" where
  "setTwoSidesLength ts options t =
     (let o0 = options ! 0; o1 = options ! 1;
          publicVertex = (if op1 o0 = op1 o1 \<or> op1 o0 = op2 o1 then op1 o0 else op2 o0)
      in case publicVertex of
           None \<Rightarrow> (Some JsTypeError, t)
         | Some pv \<Rightarrow>
        (case getSideLength t (toLowerCase (pname (t ! pv))) of
           Inl e \<Rightarrow> (Some e, t)
         | Inr length3 \<Rightarrow>
             if fails_inequality ts length3 (olength o0) (olength o1) then (Some Degenerate, t)
             else
               (case other_end o0 publicVertex of
                  None \<Rightarrow> (Some JsTypeError, t)
                | Some q0 \<Rightarrow>
               (case other_end o1 publicVertex of
                  None \<Rightarrow> (Some JsTypeError, t)
                | Some q1 \<Rightarrow>
                    (None, set_xy t pv
                       (alcutePoint (t ! pv)
                          \<lparr>slength = olength o0, spoint = t ! q0\<rparr>
                          \<lparr>slength = olength o1, spoint = t ! q1\<rparr>))))))"

text \<open>\<^verbatim>\<open>options.splice(index, 1)\<close>\<close>

definition splice1 :: "nat \<Rightarrow> 'a list \<Rightarrow> 'a list" where
  "splice1 i vs = take i vs @ drop (Suc i) vs"

definition setAllSidesLength :: "(real \<Rightarrow> string) \<Rightarrow> opt list \<Rightarrow> triangle \<Rightarrow> outcome" where
  "setAllSidesLength ts options t =
     (if fails_inequality ts (olength (options ! 0)) (olength (options ! 1))
           (olength (options ! 2))
      then (Some Degenerate, t)
      else
        (let fixed = sort_cmp (\<lambda>i j. cmp_x_then_y (t ! i) (t ! j)) [0..<length t] ! 0;
             slided = sort_cmp (\<lambda>i j. cmp_y_then_x (t ! i) (t ! j))
                        (filter (\<lambda>i. i \<noteq> fixed) [0..<length t]) ! 0
         in case findIndex (\<lambda>option.
                   (op1 option = Some fixed \<and> op2 option = Some slided) \<or>
                   (op1 option = Some slided \<and> op2 option = Some fixed)) options of
              None \<Rightarrow> (Some JsTypeError, t)
            | Some index \<Rightarrow>
                (let d = jsqrt (jadd (jsq (jsub (px (t ! slided)) (px (t ! fixed))))
                                     (jsq (jsub (py (t ! slided)) (py (t ! fixed)))));
                     t1 = slide t fixed slided d (olength (options ! index));
                     rest = splice1 index options
                 in case find (\<lambda>i. i \<noteq> fixed \<and> i \<noteq> slided) [0..<length t1] of
                      None \<Rightarrow> (Some JsTypeError, t1)
                    | Some moved \<Rightarrow>
                   (case other_end (rest ! 0) (Some moved) of
                      None \<Rightarrow> (Some JsTypeError, t1)
                    | Some q0 \<Rightarrow>
                   (case other_end (rest ! 1) (Some moved) of
                      None \<Rightarrow> (Some JsTypeError, t1)
                    | Some q1 \<Rightarrow>
                       (None, set_xy t1 moved
                          (alcutePoint (t1 ! moved)
                             \<lparr>slength = olength (rest ! 0), spoint = t1 ! q0\<rparr>
                             \<lparr>slength = olength (rest ! 1), spoint = t1 ! q1\<rparr>)))))))"

definition setSideLength ::
  "(real \<Rightarrow> string) \<Rightarrow> (string \<times> jsnum) list \<Rightarrow> triangle \<Rightarrow> outcome" where
  "setSideLength ts sides t =
     (case checkAndMergeSides t sides of
        Inl e \<Rightarrow> (Some e, t)
      | Inr options \<Rightarrow>
          if length options = 1 then setOneSideLength ts (options ! 0) t
          else if length options = 2 then setTwoSidesLength ts options t
          else if length options = 3 then setAllSidesLength ts options t
          else (None, t))"


section \<open>Constructors\<close>

text \<open>
  The loop that every constructor runs before \<^verbatim>\<open>triangle.move(deltaX, deltaY)\<close>:
  \<^verbatim>\<open>if (20 - point.x > deltaX) deltaX = 20 - point.x\<close>, from \<^verbatim>\<open>deltaX = 0\<close>.
\<close>

definition margin_delta :: "(point \<Rightarrow> jsnum) \<Rightarrow> triangle \<Rightarrow> jsnum" where
  "margin_delta coord t =
     foldl (\<lambda>delta p. if jgt (jsub (Fin 20) (coord p)) delta
                       then jsub (Fin 20) (coord p) else delta) (Fin 0) t"

definition to_margin :: "triangle \<Rightarrow> triangle" where
  "to_margin t = snd (move (margin_delta px t) (margin_delta py t) t)"

text \<open>An object literal with computed keys: a repeated key keeps its place and takes the
  later value.\<close>

definition obj_put :: "(string \<times> 'v) list \<Rightarrow> string \<Rightarrow> 'v \<Rightarrow> (string \<times> 'v) list" where
  "obj_put kvs k v =
     (if k \<in> fst ` set kvs then map (\<lambda>kv. if fst kv = k then (k, v) else kv) kvs
      else kvs @ [(k, v)])"

definition fromSSS ::
  "(real \<Rightarrow> string) \<Rightarrow> jsnum \<Rightarrow> jsnum \<Rightarrow> jsnum \<Rightarrow> string \<Rightarrow> error + triangle" where
  "fromSSS ts length1 length2 length3 nm =
     (case Triangle nm of
        Inl e \<Rightarrow> Inl e
      | Inr t \<Rightarrow>
          (let sides = obj_put (obj_put (obj_put []
                         (toLowerCase (pname (t ! 0))) length1)
                         (toLowerCase (pname (t ! 1))) length2)
                         (toLowerCase (pname (t ! 2))) length3
           in case setSideLength ts sides t of
                (Some e, _) \<Rightarrow> Inl e
              | (None, t') \<Rightarrow> Inr (to_margin t')))"

definition radians :: "jsnum \<Rightarrow> jsnum" where
  "radians angle = jdiv (jmul angle (Fin pi)) (Fin 180)"

definition fromASA :: "jsnum \<Rightarrow> jsnum \<Rightarrow> jsnum \<Rightarrow> string \<Rightarrow> error + triangle" where
  "fromASA angle1 len angle2 nm =
     (case Triangle nm of
        Inl e \<Rightarrow> Inl e
      | Inr t \<Rightarrow>
          if jle angle1 (Fin 0) \<or> jge angle1 (Fin 180) then Inl InvalidAngle
          else if jle angle2 (Fin 0) \<or> jge angle2 (Fin 180) then Inl InvalidAngle
          else if jge (jadd angle1 angle2) (Fin 180) then Inl InvalidAngle
          else if jle len (Fin 0) then Inl InvalidLength
          else
            (let t1 = t[2 := (t ! 2)\<lparr>px := jadd (px (t ! 1)) len, py := py (t ! 1)\<rparr>];
                 rateAB = jcos (radians angle1);
                 rateAC = jcos (radians angle2);
                 t2 = t1[0 := (t1 ! 0)\<lparr>
                        px := jadd (px (t1 ! 1)) (jdiv (jmul len rateAB) (jadd rateAB rateAC)),
                        py := jsub (py (t1 ! 1))
                                (jdiv (jmul len (jsin (radians angle1))) (jadd rateAB rateAC))\<rparr>]
             in Inr (to_margin t2)))"

definition fromHL :: "jsnum \<Rightarrow> jsnum \<Rightarrow> string \<Rightarrow> error + triangle" where
  "fromHL hypotenuse leg nm =
     (if jle leg (Fin 0) then Inl InvalidLength
      else if jle hypotenuse leg then Inl InvalidLength
      else
        (case Triangle nm of
           Inl e \<Rightarrow> Inl e
         | Inr t \<Rightarrow>
             (let t1 = t[2 := (t ! 2)\<lparr>px := jadd (px (t ! 1)) leg, py := py (t ! 1)\<rparr>];
                  t2 = t1[0 := (t1 ! 0)\<lparr>
                         px := px (t1 ! 1),
                         py := jsub (py (t1 ! 1)) (jsqrt (jsub (jsq hypotenuse) (jsq leg)))\<rparr>]
              in Inr (to_margin t2))))"


section \<open>Properties\<close>

text \<open>
  The strict triangle inequality on the three side lengths of a vertex set: each two of
  them sum to more than the third.
\<close>

definition strict_inequality :: "triangle \<Rightarrow> bool" where
  "strict_inequality t =
     (let a = point_distance (t ! 1) (t ! 2);
          b = point_distance (t ! 0) (t ! 2);
          c = point_distance (t ! 0) (t ! 1)
      in jgt (jadd a b) c \<and> jgt (jadd a c) b \<and> jgt (jadd b c) a)"


text \<open>The triangle that \<^verbatim>\<open>Triangle.fromHL(10, 6, "ABC")\<close> returns.\<close>

definition hl_10_6 :: triangle where
  "hl_10_6 = [\<lparr>px = Fin 20, py = Fin 112, pname = ''A''\<rparr>,
              \<lparr>px = Fin 20, py = Fin 120, pname = ''B''\<rparr>,
              \<lparr>px = Fin 26, py = Fin 120, pname = ''C''\<rparr>]"


text \<open>A vertex set of three points whose coordinates are finite numbers.\<close>

definition finite_triangle :: "triangle \<Rightarrow> bool" where
  "finite_triangle t = (length t = 3 \<and> list_all (\<lambda>p. isFin (px p) \<and> isFin (py p)) t)"

text \<open>The triangle that \<^verbatim>\<open>new Triangle("ABC")\<close> creates.\<close>

definition abc :: triangle where
  "abc = [\<lparr>px = Fin 70, py = Fin 20, pname = ''A''\<rparr>,
          \<lparr>px = Fin 20, py = Fin 120, pname = ''B''\<rparr>,
          \<lparr>px = Fin 120, py = Fin 120, pname = ''C''\<rparr>]"

text \<open>
  Two entries of \<^verbatim>\<open>options\<close> name the same edge when the test of \<^verbatim>\<open>#checkAndMergeSides\<close>
  holds of them.
\<close>

definition same_edge :: "opt \<Rightarrow> opt \<Rightarrow> bool" where
  "same_edge option other =
     ((op1 option = op1 other \<and> op2 option = op2 other) \<or>
      (op2 option = op1 other \<and> op1 option = op2 other))"

fun edges_distinct :: "opt list \<Rightarrow> bool" where
  "edges_distinct [] = True"
| "edges_distinct (option # options) =
     ((\<forall>other \<in> set options. \<not> same_edge option other) \<and> edges_distinct options)"

text \<open>
  The pairs \<^verbatim>\<open>[p1, p2]\<close> that \<^verbatim>\<open>#getPointsByName\<close> can return on a triangle whose
  vertices are named \<open>na\<close>, \<open>nb\<close> and \<open>nc\<close>: two vertices whose names both differ from
  the third name; one vertex, when the other two share a name; none, when all three share
  it.
\<close>

definition pair_ok :: "string \<Rightarrow> string \<Rightarrow> string \<Rightarrow> nat option \<Rightarrow> nat option \<Rightarrow> bool" where
  "pair_ok na nb nc p1 p2 =
     ((p1 = Some 0 \<and> p2 = Some 1 \<and> nc \<noteq> na \<and> nc \<noteq> nb) \<or>
      (p1 = Some 0 \<and> p2 = Some 2 \<and> nb \<noteq> na \<and> nb \<noteq> nc) \<or>
      (p1 = Some 1 \<and> p2 = Some 2 \<and> na \<noteq> nb \<and> na \<noteq> nc) \<or>
      (p1 = Some 0 \<and> p2 = None \<and> nb = nc \<and> na \<noteq> nb) \<or>
      (p1 = Some 1 \<and> p2 = None \<and> na = nc \<and> nb \<noteq> na) \<or>
      (p1 = Some 2 \<and> p2 = None \<and> na = nb \<and> nc \<noteq> na) \<or>
      (p1 = None \<and> p2 = None \<and> na = nb \<and> nb = nc))"


text \<open>
  Inputs on which the floating-point operations of \<^verbatim>\<open>move\<close> and \<^verbatim>\<open>flip\<close> are exact:
  integers of magnitude at most 32768. Sums, differences and products of up to three
  such numbers are integers below \<open>2\<^sup>5\<^sup>3\<close>.
\<close>

definition small_int :: "jsnum \<Rightarrow> bool" where
  "small_int v = (case v of Fin r \<Rightarrow> r = of_int \<lfloor>r\<rfloor> \<and> \<bar>r\<bar> \<le> 32768 | _ \<Rightarrow> False)"

definition integral :: "jsnum \<Rightarrow> bool" where
  "integral v = (case v of Fin r \<Rightarrow> r = of_int \<lfloor>r\<rfloor> | _ \<Rightarrow> False)"

definition small_int_point :: "point \<Rightarrow> bool" where
  "small_int_point p = (small_int (px p) \<and> small_int (py p))"

definition small_int_triangle :: "triangle \<Rightarrow> bool" where
  "small_int_triangle t = (length t = 3 \<and> list_all small_int_point t)"

text \<open>
  The values \<^verbatim>\<open>x1\<close> and \<^verbatim>\<open>y1\<close> of \<^verbatim>\<open>flip\<close>: the foot of the perpendicular from the point
  to the line. A division of two integers is exact in doubles when the quotient is an
  integer; \<open>exact_flip\<close> asks for that.
\<close>

definition foot :: "line \<Rightarrow> point \<Rightarrow> jsnum \<times> jsnum" where
  "foot l p =
     (let a = la l; b = lb l; c = lc l; x = px p; y = py p;
          denominator = jadd (jmul a a) (jmul b b)
      in (jdiv (jsub (jsub (jmul (jmul b b) x) (jmul (jmul a b) y)) (jmul a c)) denominator,
          jdiv (jsub (jsub (jmul (jmul a a) y) (jmul (jmul a b) x)) (jmul b c)) denominator))"

definition exact_flip :: "line \<Rightarrow> point \<Rightarrow> bool" where
  "exact_flip l p =
     (small_int (la l) \<and> small_int (lb l) \<and> small_int (lc l) \<and> small_int_point p \<and>
      \<not> (la l = Fin 0 \<and> lb l = Fin 0) \<and>
      integral (fst (foot l p)) \<and> integral (snd (foot l p)))"


text \<open>The three sides of \<open>t'\<close> are as long as those of \<open>t\<close>.\<close>

definition same_side_lengths :: "triangle \<Rightarrow> triangle \<Rightarrow> bool" where
  "same_side_lengths t t' =
     (point_distance (t' ! 0) (t' ! 1) = point_distance (t ! 0) (t ! 1) \<and>
      point_distance (t' ! 0) (t' ! 2) = point_distance (t ! 0) (t ! 2) \<and>
      point_distance (t' ! 1) (t' ! 2) = point_distance (t ! 1) (t ! 2))"


section \<open>Evaluation\<close>

lemmas name_defs = is_upper_def is_lower_def toLowerCase_def toUpperCase_def

lemmas lookup_defs = getSideLength_def getPointsByName_def getPointsByAdjacentVertex_def
  getPointsByOppositeVertex_def point_distance_def upt_rec

lemmas num_defs = jsq_def jsub_def jgt_def jge_def jneq_def jor_def inf_of_sign_def

lemmas sort_defs = sort_by_def sort_cmp_def sort_default_def num_to_string_def digit_char_def
  fails_inequality_def digits.simps

lemmas resolver_defs = alcutePoint_def cross_def checkAndMergeSides_def cmp_x_then_y_def
  cmp_y_then_x_def slide_def set_xy_def setOneSideLength_def setTwoSidesLength_def
  setAllSidesLength_def setSideLength_def other_end_def splice1_def

lemmas ctor_defs = Triangle_def createDefaultTrianglePoints_def margin_delta_def to_margin_def
  obj_put_def move_def

lemma sqrt_64: "sqrt 64 = 8"
  using real_sqrt_abs [of 8] by simp

lemma sqrt_100: "sqrt 100 = 10"
  using real_sqrt_abs [of 10] by simp

lemma sqrt_12500_bounds: "100 < sqrt 12500" "sqrt 12500 < 120"
proof -
  have "sqrt (100 ^ 2) < sqrt 12500" by (rule real_sqrt_less_mono) simp
  then show "100 < sqrt 12500" by simp
  have "sqrt 12500 < sqrt (120 ^ 2)" by (rule real_sqrt_less_mono) simp
  then show "sqrt 12500 < 120" by simp
qed


section \<open>The default triangle\<close>

text \<open>
  C10: for every name that splits into exactly three segments, the constructor places the
  vertices at (70, 20), (20, 120) and (120, 120). The two slanted sides have length
  \<open>sqrt 12500\<close>, the base has length 100; the triangle satisfies the strict triangle
  inequality and is not equilateral.
\<close>

theorem default_triangle:
  assumes "name_segments nm = [A, B, C]"
  shows "\<exists>t. Triangle nm = Inr t
       \<and> t = [\<lparr>px = Fin 70, py = Fin 20, pname = A\<rparr>,
              \<lparr>px = Fin 20, py = Fin 120, pname = B\<rparr>,
              \<lparr>px = Fin 120, py = Fin 120, pname = C\<rparr>]
       \<and> point_distance (t ! 0) (t ! 1) = Fin (sqrt 12500)
       \<and> point_distance (t ! 0) (t ! 2) = Fin (sqrt 12500)
       \<and> point_distance (t ! 1) (t ! 2) = Fin 100
       \<and> strict_inequality t
       \<and> point_distance (t ! 0) (t ! 1) \<noteq> point_distance (t ! 1) (t ! 2)"
  using assms sqrt_12500_bounds
  by (auto simp add: ctor_defs point_distance_def num_defs strict_inequality_def Let_def)

theorem default_triangle_witness:
  "name_segments ''ABC'' = [''A'', ''B'', ''C'']
   \<and> Triangle ''ABC'' = Inr [\<lparr>px = Fin 70, py = Fin 20, pname = ''A''\<rparr>,
                              \<lparr>px = Fin 20, py = Fin 120, pname = ''B''\<rparr>,
                              \<lparr>px = Fin 120, py = Fin 120, pname = ''C''\<rparr>]
   \<and> strict_inequality [\<lparr>px = Fin 70, py = Fin 20, pname = ''A''\<rparr>,
                         \<lparr>px = Fin 20, py = Fin 120, pname = ''B''\<rparr>,
                         \<lparr>px = Fin 120, py = Fin 120, pname = ''C''\<rparr>]"
proof -
  have h: "name_segments ''ABC'' = [''A'', ''B'', ''C'']"
    by (simp add: is_upper_def)
  from default_triangle [OF h] h show ?thesis by auto
qed


section \<open>The triangle inequality check of \<^verbatim>\<open>fromSSS\<close>\<close>

text \<open>
  C1: \<^verbatim>\<open>fromSSS\<close> is to fail on every triple of lengths that violates the strict triangle
  inequality. The lengths are sorted by \<^verbatim>\<open>sort()\<close> without a comparison function, that
  is as strings: (2, 2, 4) is rejected, but (2, 2, 10) is sorted to (10, 2, 2), passes the
  check, and a triangle with a \<^verbatim>\<open>NaN\<close> vertex is returned.
\<close>

theorem fromSSS_default_sort:
  "fromSSS ts (Fin 2) (Fin 2) (Fin 4) ''ABC'' = Inl Degenerate
   \<and> sort_default ts [Fin 2, Fin 2, Fin 10] = [Fin 10, Fin 2, Fin 2]
   \<and> fromSSS ts (Fin 2) (Fin 2) (Fin 10) ''ABC'' =
       Inr [\<lparr>px = NaN, py = NaN, pname = ''A''\<rparr>,
            \<lparr>px = Fin 20, py = Fin 120, pname = ''B''\<rparr>,
            \<lparr>px = Fin 22, py = Fin 120, pname = ''C''\<rparr>]"
  by (simp add: fromSSS_def ctor_defs name_defs lookup_defs num_defs sort_defs resolver_defs
        Let_def)


section \<open>Scaling\<close>

text \<open>
  C6: \<^verbatim>\<open>scale(1)\<close> is to leave the vertices where they are. The code multiplies the offset
  from the centroid by \<^verbatim>\<open>factor - 1\<close>, so \<^verbatim>\<open>scale(1)\<close> moves the three vertices of the
  default triangle onto its centroid.
\<close>

theorem scale_1_collapses:
  "Triangle ''ABC'' = Inr [\<lparr>px = Fin 70, py = Fin 20, pname = ''A''\<rparr>,
                            \<lparr>px = Fin 20, py = Fin 120, pname = ''B''\<rparr>,
                            \<lparr>px = Fin 120, py = Fin 120, pname = ''C''\<rparr>]
   \<and> scale (Fin 1) [\<lparr>px = Fin 70, py = Fin 20, pname = ''A''\<rparr>,
                     \<lparr>px = Fin 20, py = Fin 120, pname = ''B''\<rparr>,
                     \<lparr>px = Fin 120, py = Fin 120, pname = ''C''\<rparr>] =
       (None, [\<lparr>px = Fin 70, py = Fin (260 / 3), pname = ''A''\<rparr>,
               \<lparr>px = Fin 70, py = Fin (260 / 3), pname = ''B''\<rparr>,
               \<lparr>px = Fin 70, py = Fin (260 / 3), pname = ''C''\<rparr>])"
  by (simp add: ctor_defs name_defs scale_def centerX_def centerY_def num_defs Let_def)


section \<open>Right triangles from hypotenuse and leg\<close>

lemma fromHL_points:
  assumes "0 < l" "l < h"
  shows "fromHL (Fin h) (Fin l) ''ABC'' =
     Inr [\<lparr>px = Fin 20,
            py = Fin (120 - sqrt (h\<^sup>2 - l\<^sup>2) + max 0 (sqrt (h\<^sup>2 - l\<^sup>2) - 100)),
            pname = ''A''\<rparr>,
          \<lparr>px = Fin 20, py = Fin (120 + max 0 (sqrt (h\<^sup>2 - l\<^sup>2) - 100)),
            pname = ''B''\<rparr>,
          \<lparr>px = Fin (20 + l), py = Fin (120 + max 0 (sqrt (h\<^sup>2 - l\<^sup>2) - 100)),
            pname = ''C''\<rparr>]"
proof -
  have "l\<^sup>2 < h\<^sup>2" using assms by (simp add: power_strict_mono)
  then have pos: "0 < h\<^sup>2 - l\<^sup>2" by simp
  then have s: "0 < sqrt (h\<^sup>2 - l\<^sup>2)" by simp
  from assms pos s show ?thesis
    by (simp add: fromHL_def ctor_defs name_defs num_defs Let_def power2_eq_square max_def)
qed

lemma side_of_ABC:
  "getSideLength [\<lparr>px = ax, py = ay, pname = ''A''\<rparr>,
                  \<lparr>px = bx, py = by, pname = ''B''\<rparr>,
                  \<lparr>px = cx, py = cy, pname = ''C''\<rparr>] ''BC'' =
     Inr (point_distance \<lparr>px = bx, py = by, pname = ''B''\<rparr>
                         \<lparr>px = cx, py = cy, pname = ''C''\<rparr>)"
  "getSideLength [\<lparr>px = ax, py = ay, pname = ''A''\<rparr>,
                  \<lparr>px = bx, py = by, pname = ''B''\<rparr>,
                  \<lparr>px = cx, py = cy, pname = ''C''\<rparr>] ''AB'' =
     Inr (point_distance \<lparr>px = ax, py = ay, pname = ''A''\<rparr>
                         \<lparr>px = bx, py = by, pname = ''B''\<rparr>)"
  by (simp_all add: getSideLength_def getPointsByName_def getPointsByAdjacentVertex_def
        name_defs upt_rec)

lemma horizontal_distance:
  "0 < l \<Longrightarrow> point_distance \<lparr>px = Fin 20, py = Fin d, pname = n1\<rparr>
     \<lparr>px = Fin (20 + l), py = Fin d, pname = n2\<rparr> = Fin l"
  by (simp add: point_distance_def num_defs)

lemma vertical_distance:
  "0 < s \<Longrightarrow> point_distance \<lparr>px = Fin 20, py = Fin (120 - s + d), pname = n1\<rparr>
     \<lparr>px = Fin 20, py = Fin (120 + d), pname = n2\<rparr> = Fin s"
  by (simp add: point_distance_def num_defs)

text \<open>
  C9, as amended: \<^verbatim>\<open>fromHL(hypotenuse, leg)\<close> fails with the invalid-length error whenever
  \<^verbatim>\<open>leg <= 0\<close> or \<^verbatim>\<open>hypotenuse <= leg\<close>, for all numbers. For integers
  \<open>0 < leg < hypotenuse \<le> 2\<^sup>2\<^sup>5\<close> such that \<open>hypotenuse\<^sup>2 - leg\<^sup>2\<close> is the square of a
  positive integer \<open>s\<close>, so that every floating-point operation is exact, it returns a
  triangle with a right angle at B, side BC of length \<open>leg\<close> and side AB of length
  \<open>s = sqrt (hypotenuse\<^sup>2 - leg\<^sup>2)\<close>.
\<close>

theorem fromHL_integer_right_triangle:
  fixes h l s :: int
  shows
  "(jle leg (Fin 0) \<or> jle hypotenuse leg \<longrightarrow> fromHL hypotenuse leg nm = Inl InvalidLength)
   \<and> (0 < l \<and> l < h \<and> h \<le> 33554432 \<and> 0 < s \<and> s * s = h * h - l * l \<longrightarrow>
        (\<exists>ax ay bx by cx cy t.
           fromHL (Fin (of_int h)) (Fin (of_int l)) ''ABC'' = Inr t
         \<and> t = [\<lparr>px = Fin ax, py = Fin ay, pname = ''A''\<rparr>,
                \<lparr>px = Fin bx, py = Fin by, pname = ''B''\<rparr>,
                \<lparr>px = Fin cx, py = Fin cy, pname = ''C''\<rparr>]
         \<and> (ax - bx) * (cx - bx) + (ay - by) * (cy - by) = 0
         \<and> getSideLength t ''BC'' = Inr (Fin (of_int l))
         \<and> getSideLength t ''AB'' = Inr (Fin (of_int s))
         \<and> sqrt ((of_int h)\<^sup>2 - (of_int l)\<^sup>2) = of_int s))"
proof (intro conjI impI)
  assume "jle leg (Fin 0) \<or> jle hypotenuse leg"
  then show "fromHL hypotenuse leg nm = Inl InvalidLength"
    by (auto simp add: fromHL_def)
next
  assume a: "0 < l \<and> l < h \<and> h \<le> 33554432 \<and> 0 < s \<and> s * s = h * h - l * l"
  define hr :: real where "hr = of_int h"
  define lr :: real where "lr = of_int l"
  define sr :: real where "sr = of_int s"
  from a have lh: "0 < lr" "lr < hr" and spos: "0 < sr"
    by (simp_all add: hr_def lr_def sr_def)
  from a have "(of_int (s * s) :: real) = of_int (h * h - l * l)" by simp
  then have sq: "hr\<^sup>2 - lr\<^sup>2 = sr\<^sup>2"
    by (simp add: hr_def lr_def sr_def power2_eq_square)
  from spos have root: "sqrt (hr\<^sup>2 - lr\<^sup>2) = sr"
    unfolding sq by simp
  define d where "d = max 0 (sr - 100)"
  from lh have p: "fromHL (Fin hr) (Fin lr) ''ABC'' =
     Inr [\<lparr>px = Fin 20, py = Fin (120 - sr + d), pname = ''A''\<rparr>,
          \<lparr>px = Fin 20, py = Fin (120 + d), pname = ''B''\<rparr>,
          \<lparr>px = Fin (20 + lr), py = Fin (120 + d), pname = ''C''\<rparr>]"
    unfolding d_def using fromHL_points [of lr hr] by (simp only: root)
  have q1: "getSideLength
       [\<lparr>px = Fin 20, py = Fin (120 - sr + d), pname = ''A''\<rparr>,
        \<lparr>px = Fin 20, py = Fin (120 + d), pname = ''B''\<rparr>,
        \<lparr>px = Fin (20 + lr), py = Fin (120 + d), pname = ''C''\<rparr>] ''BC'' = Inr (Fin lr)"
    using lh by (simp only: side_of_ABC horizontal_distance)
  have q2: "getSideLength
       [\<lparr>px = Fin 20, py = Fin (120 - sr + d), pname = ''A''\<rparr>,
        \<lparr>px = Fin 20, py = Fin (120 + d), pname = ''B''\<rparr>,
        \<lparr>px = Fin (20 + lr), py = Fin (120 + d), pname = ''C''\<rparr>] ''AB'' = Inr (Fin sr)"
    using spos by (simp only: side_of_ABC vertical_distance)
  have dot: "(20 - 20) * (20 + lr - 20) + (120 - sr + d - (120 + d)) * (120 + d - (120 + d)) = (0::real)"
    by simp
  from p q1 q2 dot root
  show "\<exists>ax ay bx by cx cy t.
           fromHL (Fin (of_int h)) (Fin (of_int l)) ''ABC'' = Inr t
         \<and> t = [\<lparr>px = Fin ax, py = Fin ay, pname = ''A''\<rparr>,
                \<lparr>px = Fin bx, py = Fin by, pname = ''B''\<rparr>,
                \<lparr>px = Fin cx, py = Fin cy, pname = ''C''\<rparr>]
         \<and> (ax - bx) * (cx - bx) + (ay - by) * (cy - by) = 0
         \<and> getSideLength t ''BC'' = Inr (Fin (of_int l))
         \<and> getSideLength t ''AB'' = Inr (Fin (of_int s))
         \<and> sqrt ((of_int h)\<^sup>2 - (of_int l)\<^sup>2) = of_int s"
    unfolding hr_def lr_def sr_def by blast
qed

theorem fromHL_integer_right_triangle_witness:
  "fromHL (Fin 5) (Fin 5) ''ABC'' = Inl InvalidLength
   \<and> (\<exists>ax ay bx by cx cy t.
           fromHL (Fin 10) (Fin 6) ''ABC'' = Inr t
         \<and> t = [\<lparr>px = Fin ax, py = Fin ay, pname = ''A''\<rparr>,
                \<lparr>px = Fin bx, py = Fin by, pname = ''B''\<rparr>,
                \<lparr>px = Fin cx, py = Fin cy, pname = ''C''\<rparr>]
         \<and> (ax - bx) * (cx - bx) + (ay - by) * (cy - by) = 0
         \<and> getSideLength t ''BC'' = Inr (Fin 6)
         \<and> getSideLength t ''AB'' = Inr (Fin 8))"
proof -
  have h1: "jle (Fin 5) (Fin 0) \<or> jle (Fin 5) (Fin 5)" by simp
  have h2: "(0::int) < 6 \<and> (6::int) < 10 \<and> (10::int) \<le> 33554432 \<and> (0::int) < 8
      \<and> (8::int) * 8 = 10 * 10 - 6 * 6" by simp
  from fromHL_integer_right_triangle [of "Fin 5" "Fin 5" "''ABC''" 6 10 8] h1 h2
  have "fromHL (Fin 5) (Fin 5) ''ABC'' = Inl InvalidLength"
    and "\<exists>ax ay bx by cx cy t.
           fromHL (Fin (of_int 10)) (Fin (of_int 6)) ''ABC'' = Inr t
         \<and> t = [\<lparr>px = Fin ax, py = Fin ay, pname = ''A''\<rparr>,
                \<lparr>px = Fin bx, py = Fin by, pname = ''B''\<rparr>,
                \<lparr>px = Fin cx, py = Fin cy, pname = ''C''\<rparr>]
         \<and> (ax - bx) * (cx - bx) + (ay - by) * (cy - by) = 0
         \<and> getSideLength t ''BC'' = Inr (Fin (of_int 6))
         \<and> getSideLength t ''AB'' = Inr (Fin (of_int 8))"
    by blast+
  then show ?thesis by simp
qed


text \<open>
  \<^verbatim>\<open>Infinity > 6 > 0\<close>, and \<^verbatim>\<open>fromHL(Infinity, 6)\<close> returns a vertex set with a \<^verbatim>\<open>NaN\<close>
  coordinate, in which BC has no length.
\<close>

theorem fromHL_infinite_hypotenuse:
  "jgt PInf (Fin 6) \<and> jgt (Fin 6) (Fin 0)
   \<and> fromHL PInf (Fin 6) ''ABC'' =
       Inr [\<lparr>px = Fin 20, py = NaN, pname = ''A''\<rparr>,
            \<lparr>px = Fin 20, py = PInf, pname = ''B''\<rparr>,
            \<lparr>px = Fin 26, py = PInf, pname = ''C''\<rparr>]
   \<and> getSideLength [\<lparr>px = Fin 20, py = NaN, pname = ''A''\<rparr>,
            \<lparr>px = Fin 20, py = PInf, pname = ''B''\<rparr>,
            \<lparr>px = Fin 26, py = PInf, pname = ''C''\<rparr>] ''BC'' = Inr NaN"
  by (simp add: fromHL_def ctor_defs name_defs num_defs lookup_defs Let_def)


section \<open>Triangles from two angles and the side between them\<close>

lemma sqrt_2_bounds: "1 < sqrt 2" "sqrt 2 < 2"
proof -
  have "sqrt 1 < sqrt 2" by (rule real_sqrt_less_mono) simp
  then show "1 < sqrt 2" by simp
  have "sqrt 2 < sqrt (2 ^ 2)" by (rule real_sqrt_less_mono) simp
  then show "sqrt 2 < 2" by simp
qed

lemma sqrt_3_bounds: "1 < sqrt 3" "sqrt 3 < 2"
proof -
  have "sqrt 1 < sqrt 3" by (rule real_sqrt_less_mono) simp
  then show "1 < sqrt 3" by simp
  have "sqrt 3 < sqrt (2 ^ 2)" by (rule real_sqrt_less_mono) simp
  then show "sqrt 3 < 2" by simp
qed

lemma twenty_over_sqrt_2: "20 / sqrt 2 = 10 * sqrt 2"
proof -
  have "sqrt 2 * sqrt 2 = 2" by simp
  then show ?thesis by (simp add: field_simps)
qed

lemma sqrt_200: "sqrt 200 = 10 * sqrt 2"
proof -
  have "sqrt 200 = sqrt (100 * 2)" by simp
  also have "\<dots> = sqrt 100 * sqrt 2" by (rule real_sqrt_mult)
  finally show ?thesis by (simp add: sqrt_100)
qed

text \<open>
  C8: \<^verbatim>\<open>fromASA(angle1, length, angle2)\<close> is to return a triangle with side a of the given
  length, the angle at B equal to \<^verbatim>\<open>angle1\<close> and the angle at C equal to \<^verbatim>\<open>angle2\<close>. The
  code places A at \<^verbatim>\<open>length / (cos angle1 + cos angle2)\<close> from B. For (60, 10, 60) the
  result is equilateral. For (90, 10, 45) A is placed straight above B at distance
  \<open>10 * sqrt 2\<close>, while a triangle with a right angle at B, a = 10 and 45 degrees at C has
  AB = 10.
\<close>

theorem fromASA_placement:
  "fromASA (Fin 60) (Fin 10) (Fin 60) ''ABC'' =
     Inr [\<lparr>px = Fin 25, py = Fin (120 - 5 * sqrt 3), pname = ''A''\<rparr>,
          \<lparr>px = Fin 20, py = Fin 120, pname = ''B''\<rparr>,
          \<lparr>px = Fin 30, py = Fin 120, pname = ''C''\<rparr>]
   \<and> fromASA (Fin 90) (Fin 10) (Fin 45) ''ABC'' =
     Inr [\<lparr>px = Fin 20, py = Fin (120 - 10 * sqrt 2), pname = ''A''\<rparr>,
          \<lparr>px = Fin 20, py = Fin 120, pname = ''B''\<rparr>,
          \<lparr>px = Fin 30, py = Fin 120, pname = ''C''\<rparr>]
   \<and> getSideLength [\<lparr>px = Fin 20, py = Fin (120 - 10 * sqrt 2), pname = ''A''\<rparr>,
          \<lparr>px = Fin 20, py = Fin 120, pname = ''B''\<rparr>,
          \<lparr>px = Fin 30, py = Fin 120, pname = ''C''\<rparr>] ''BC'' = Inr (Fin 10)
   \<and> getSideLength [\<lparr>px = Fin 20, py = Fin (120 - 10 * sqrt 2), pname = ''A''\<rparr>,
          \<lparr>px = Fin 20, py = Fin 120, pname = ''B''\<rparr>,
          \<lparr>px = Fin 30, py = Fin 120, pname = ''C''\<rparr>] ''AB'' = Inr (Fin (10 * sqrt 2))"
proof (intro conjI)
  show "fromASA (Fin 60) (Fin 10) (Fin 60) ''ABC'' =
     Inr [\<lparr>px = Fin 25, py = Fin (120 - 5 * sqrt 3), pname = ''A''\<rparr>,
          \<lparr>px = Fin 20, py = Fin 120, pname = ''B''\<rparr>,
          \<lparr>px = Fin 30, py = Fin 120, pname = ''C''\<rparr>]"
    using sqrt_3_bounds
    by (simp add: fromASA_def radians_def ctor_defs name_defs num_defs Let_def cos_60 sin_60)
  show "fromASA (Fin 90) (Fin 10) (Fin 45) ''ABC'' =
     Inr [\<lparr>px = Fin 20, py = Fin (120 - 10 * sqrt 2), pname = ''A''\<rparr>,
          \<lparr>px = Fin 20, py = Fin 120, pname = ''B''\<rparr>,
          \<lparr>px = Fin 30, py = Fin 120, pname = ''C''\<rparr>]"
    using sqrt_2_bounds
    by (simp add: fromASA_def radians_def ctor_defs name_defs num_defs Let_def cos_45 sin_45
          twenty_over_sqrt_2)
  show "getSideLength [\<lparr>px = Fin 20, py = Fin (120 - 10 * sqrt 2), pname = ''A''\<rparr>,
          \<lparr>px = Fin 20, py = Fin 120, pname = ''B''\<rparr>,
          \<lparr>px = Fin 30, py = Fin 120, pname = ''C''\<rparr>] ''BC'' = Inr (Fin 10)"
    by (simp add: side_of_ABC point_distance_def num_defs)
  show "getSideLength [\<lparr>px = Fin 20, py = Fin (120 - 10 * sqrt 2), pname = ''A''\<rparr>,
          \<lparr>px = Fin 20, py = Fin 120, pname = ''B''\<rparr>,
          \<lparr>px = Fin 30, py = Fin 120, pname = ''C''\<rparr>] ''AB'' = Inr (Fin (10 * sqrt 2))"
    by (simp add: side_of_ABC point_distance_def num_defs sqrt_200)
qed


section \<open>Setting one side of a triangle\<close>

lemma fromHL_10_6: "fromHL (Fin 10) (Fin 6) ''ABC'' = Inr hl_10_6"
  by (simp add: hl_10_6_def fromHL_def ctor_defs name_defs num_defs Let_def sqrt_64)

lemma one_edge_100:
  "setSideLength ts [(''a'', Fin 100)] hl_10_6 =
     (None, [\<lparr>px = NaN, py = NaN, pname = ''A''\<rparr>,
             \<lparr>px = Fin 20, py = Fin 120, pname = ''B''\<rparr>,
             \<lparr>px = Fin 120, py = Fin 120, pname = ''C''\<rparr>])"
  by (simp add: hl_10_6_def name_defs lookup_defs num_defs sort_defs resolver_defs Let_def
        sqrt_64 sqrt_100)

lemma one_edge_90:
  "setSideLength ts [(''a'', Fin 90)] hl_10_6 = (Some Degenerate, hl_10_6)"
  by (simp add: hl_10_6_def name_defs lookup_defs num_defs sort_defs resolver_defs Let_def
        sqrt_64 sqrt_100)

text \<open>
  C5: after a successful \<^verbatim>\<open>setSideLength({a: L})\<close>, side a is to have length L and sides
  b and c their former lengths. On the triangle of \<^verbatim>\<open>fromHL(10, 6)\<close>, with b = 10 and
  c = 8, the call with L = 100 passes the string-sorted check (10, 100, 8) and succeeds;
  afterwards a = 100, and b and c are \<^verbatim>\<open>NaN\<close>.
\<close>

theorem one_edge_round_trip_fails:
  "fromHL (Fin 10) (Fin 6) ''ABC'' = Inr hl_10_6
   \<and> getSideLength hl_10_6 ''b'' = Inr (Fin 10)
   \<and> getSideLength hl_10_6 ''c'' = Inr (Fin 8)
   \<and> fst (setSideLength ts [(''a'', Fin 100)] hl_10_6) = None
   \<and> getSideLength (snd (setSideLength ts [(''a'', Fin 100)] hl_10_6)) ''a'' = Inr (Fin 100)
   \<and> getSideLength (snd (setSideLength ts [(''a'', Fin 100)] hl_10_6)) ''b'' = Inr NaN
   \<and> getSideLength (snd (setSideLength ts [(''a'', Fin 100)] hl_10_6)) ''c'' = Inr NaN"
  unfolding one_edge_100 fromHL_10_6
  by (simp add: hl_10_6_def name_defs lookup_defs num_defs Let_def sqrt_64 sqrt_100)

text \<open>
  C4: a successful single-edge \<^verbatim>\<open>setSideLength\<close> is to keep the sign of the cross product
  that tells on which side of the modified edge the third vertex lies. In the call above
  the cross product of A relative to the line from C to B is 48 before the call and
  \<^verbatim>\<open>NaN\<close> after it.
\<close>

theorem one_edge_orientation_lost:
  "fst (setSideLength ts [(''a'', Fin 100)] hl_10_6) = None
   \<and> cross (px (hl_10_6 ! 2)) (py (hl_10_6 ! 2)) (px (hl_10_6 ! 1)) (py (hl_10_6 ! 1))
            (px (hl_10_6 ! 0)) (py (hl_10_6 ! 0)) = Fin 48
   \<and> (\<exists>t. snd (setSideLength ts [(''a'', Fin 100)] hl_10_6) = t
        \<and> cross (px (t ! 2)) (py (t ! 2)) (px (t ! 1)) (py (t ! 1)) (px (t ! 0)) (py (t ! 0))
            = NaN)"
  unfolding one_edge_100
  by (simp add: hl_10_6_def cross_def num_defs)


section \<open>Transforms of triangles with finite coordinates\<close>

lemma isFin_iff: "isFin v \<longleftrightarrow> (\<exists>r. v = Fin r)"
  by (cases v) (simp_all add: isFin_def)

lemma finite_point: "isFin (px p) \<Longrightarrow> isFin (py p) \<Longrightarrow> \<exists>x y. p = \<lparr>px = Fin x, py = Fin y, pname = pname p\<rparr>"
  by (cases p) (auto simp add: isFin_iff)

lemma finite_triangleE:
  assumes "finite_triangle t"
  obtains x1 y1 n1 x2 y2 n2 x3 y3 n3 where
    "t = [\<lparr>px = Fin x1, py = Fin y1, pname = n1\<rparr>,
          \<lparr>px = Fin x2, py = Fin y2, pname = n2\<rparr>,
          \<lparr>px = Fin x3, py = Fin y3, pname = n3\<rparr>]"
proof -
  from assms obtain p1 p2 p3 where t: "t = [p1, p2, p3]"
    by (auto simp add: finite_triangle_def length_Suc_conv numeral_3_eq_3)
  with assms have "isFin (px p1)" "isFin (py p1)" "isFin (px p2)" "isFin (py p2)"
    "isFin (px p3)" "isFin (py p3)"
    by (simp_all add: finite_triangle_def)
  then obtain x1 y1 x2 y2 x3 y3 where
    "p1 = \<lparr>px = Fin x1, py = Fin y1, pname = pname p1\<rparr>"
    "p2 = \<lparr>px = Fin x2, py = Fin y2, pname = pname p2\<rparr>"
    "p3 = \<lparr>px = Fin x3, py = Fin y3, pname = pname p3\<rparr>"
    using finite_point by meson
  with t that show thesis by blast
qed

lemma distance_fin:
  "point_distance \<lparr>px = Fin x1, py = Fin y1, pname = n1\<rparr> \<lparr>px = Fin x2, py = Fin y2, pname = n2\<rparr>
     = Fin (sqrt ((x2 - x1)\<^sup>2 + (y2 - y1)\<^sup>2))"
  by (simp add: point_distance_def num_defs power2_eq_square not_less)

lemma strict_inequality_fin:
  "strict_inequality [\<lparr>px = Fin x1, py = Fin y1, pname = n1\<rparr>,
                      \<lparr>px = Fin x2, py = Fin y2, pname = n2\<rparr>,
                      \<lparr>px = Fin x3, py = Fin y3, pname = n3\<rparr>] \<longleftrightarrow>
     sqrt ((x2 - x1)\<^sup>2 + (y2 - y1)\<^sup>2) < sqrt ((x3 - x2)\<^sup>2 + (y3 - y2)\<^sup>2) + sqrt ((x3 - x1)\<^sup>2 + (y3 - y1)\<^sup>2)
   \<and> sqrt ((x3 - x1)\<^sup>2 + (y3 - y1)\<^sup>2) < sqrt ((x3 - x2)\<^sup>2 + (y3 - y2)\<^sup>2) + sqrt ((x2 - x1)\<^sup>2 + (y2 - y1)\<^sup>2)
   \<and> sqrt ((x3 - x2)\<^sup>2 + (y3 - y2)\<^sup>2) < sqrt ((x3 - x1)\<^sup>2 + (y3 - y1)\<^sup>2) + sqrt ((x2 - x1)\<^sup>2 + (y2 - y1)\<^sup>2)"
  by (simp add: strict_inequality_def distance_fin jgt_def Let_def)

lemma flip_point_fin:
  assumes "a \<noteq> 0 \<or> b \<noteq> 0"
  shows "flip_point \<lparr>la = Fin a, lb = Fin b, lc = Fin c\<rparr> \<lparr>px = Fin x, py = Fin y, pname = n\<rparr> =
     \<lparr>px = Fin (2 * ((b * b * x - a * b * y - a * c) / (a * a + b * b)) - x),
      py = Fin (2 * ((a * a * y - a * b * x - b * c) / (a * a + b * b)) - y), pname = n\<rparr>"
proof -
  from assms have "a * a + b * b \<noteq> 0"
    by (simp add: sum_squares_eq_zero_iff)
  then show ?thesis
    by (simp add: flip_point_def num_defs Let_def)
qed

lemma mirror_on_axis:
  fixes a b c x y :: real
  assumes nz: "a * a + b * b \<noteq> 0"
  defines "x' \<equiv> 2 * ((b * b * x - a * b * y - a * c) / (a * a + b * b)) - x"
    and "y' \<equiv> 2 * ((a * a * y - a * b * x - b * c) / (a * a + b * b)) - y"
  shows "a * ((x + x') / 2) + b * ((y + y') / 2) + c = 0" and "b * (x' - x) = a * (y' - y)"
proof -
  define N where "N = a * a + b * b"
  define P where "P = b * b * x - a * b * y - a * c"
  define Q where "Q = a * a * y - a * b * x - b * c"
  have N: "N \<noteq> 0" unfolding N_def by (rule nz)
  have x': "x' = 2 * (P / N) - x" by (simp only: x'_def P_def N_def)
  have y': "y' = 2 * (Q / N) - y" by (simp only: y'_def Q_def N_def)
  have mid: "(u + (2 * q - u)) / 2 = q" for u q :: real
    by simp
  have mx: "(x + x') / 2 = P / N" unfolding x' by (rule mid)
  have my: "(y + y') / 2 = Q / N" unfolding y' by (rule mid)
  have pq: "a * P + b * Q = - c * N"
    by (simp add: P_def Q_def N_def algebra_simps)
  have "a * (P / N) + b * (Q / N) = (a * P + b * Q) / N"
    by (simp add: add_divide_distrib)
  also have "\<dots> = - c" using N by (simp add: pq)
  finally show "a * ((x + x') / 2) + b * ((y + y') / 2) + c = 0"
    by (simp add: mx my)
  have px: "P - x * N = - a * (a * x + b * y + c)"
    by (simp add: P_def N_def algebra_simps)
  have qy: "Q - y * N = - b * (a * x + b * y + c)"
    by (simp add: Q_def N_def algebra_simps)
  have dx: "x' - x = 2 * ((P - x * N) / N)"
    using N by (simp add: x' diff_divide_distrib)
  have dy: "y' - y = 2 * ((Q - y * N) / N)"
    using N by (simp add: y' diff_divide_distrib)
  show "b * (x' - x) = a * (y' - y)"
    by (simp only: dx dy px qy) (simp add: algebra_simps)
qed

lemma translate_dist:
  fixes x1 y1 x2 y2 dx dy :: real
  shows "(x2 + dx - (x1 + dx))\<^sup>2 + (y2 + dy - (y1 + dy))\<^sup>2 = (x2 - x1)\<^sup>2 + (y2 - y1)\<^sup>2"
  by simp

lemma reflect_dist:
  fixes a b c x1 y1 x2 y2 :: real
  assumes nz: "a * a + b * b \<noteq> 0"
  shows "(2 * ((b * b * x2 - a * b * y2 - a * c) / (a * a + b * b)) - x2
          - (2 * ((b * b * x1 - a * b * y1 - a * c) / (a * a + b * b)) - x1))\<^sup>2
       + (2 * ((a * a * y2 - a * b * x2 - b * c) / (a * a + b * b)) - y2
          - (2 * ((a * a * y1 - a * b * x1 - b * c) / (a * a + b * b)) - y1))\<^sup>2
       = (x2 - x1)\<^sup>2 + (y2 - y1)\<^sup>2"
proof -
  define N where "N = a * a + b * b"
  define u where "u = x2 - x1"
  define v where "v = y2 - y1"
  have N: "N \<noteq> 0" unfolding N_def by (rule nz)
  have ex: "2 * ((b * b * x2 - a * b * y2 - a * c) / N) - x2
          - (2 * ((b * b * x1 - a * b * y1 - a * c) / N) - x1)
        = ((b * b - a * a) * u - 2 * a * b * v) / N"
  proof -
    have "2 * ((b * b * x2 - a * b * y2 - a * c) / N) - x2
          - (2 * ((b * b * x1 - a * b * y1 - a * c) / N) - x1)
        = (2 * (b * b * u - a * b * v) - N * u) / N"
      using N by (simp add: u_def v_def field_simps)
    also have "2 * (b * b * u - a * b * v) - N * u = (b * b - a * a) * u - 2 * a * b * v"
      by (simp add: N_def algebra_simps)
    finally show ?thesis .
  qed
  have ey: "2 * ((a * a * y2 - a * b * x2 - b * c) / N) - y2
          - (2 * ((a * a * y1 - a * b * x1 - b * c) / N) - y1)
        = ((a * a - b * b) * v - 2 * a * b * u) / N"
  proof -
    have "2 * ((a * a * y2 - a * b * x2 - b * c) / N) - y2
          - (2 * ((a * a * y1 - a * b * x1 - b * c) / N) - y1)
        = (2 * (a * a * v - a * b * u) - N * v) / N"
      using N by (simp add: u_def v_def field_simps)
    also have "2 * (a * a * v - a * b * u) - N * v = (a * a - b * b) * v - 2 * a * b * u"
      by (simp add: N_def algebra_simps)
    finally show ?thesis .
  qed
  have sq: "((b * b - a * a) * u - 2 * a * b * v)\<^sup>2 + ((a * a - b * b) * v - 2 * a * b * u)\<^sup>2
      = N\<^sup>2 * (u\<^sup>2 + v\<^sup>2)"
    by (simp add: N_def power2_eq_square algebra_simps)
  have "(((b * b - a * a) * u - 2 * a * b * v) / N)\<^sup>2 + (((a * a - b * b) * v - 2 * a * b * u) / N)\<^sup>2
      = (((b * b - a * a) * u - 2 * a * b * v)\<^sup>2 + ((a * a - b * b) * v - 2 * a * b * u)\<^sup>2) / N\<^sup>2"
    by (simp add: power_divide add_divide_distrib)
  also have "\<dots> = u\<^sup>2 + v\<^sup>2" using N by (simp add: sq)
  finally show ?thesis
    unfolding ex [unfolded N_def] ey [unfolded N_def] by (simp only: u_def v_def N_def)
qed

lemma move_fin:
  "move (Fin dx) (Fin dy)
     [\<lparr>px = Fin x1, py = Fin y1, pname = n1\<rparr>,
      \<lparr>px = Fin x2, py = Fin y2, pname = n2\<rparr>,
      \<lparr>px = Fin x3, py = Fin y3, pname = n3\<rparr>] =
   (None, [\<lparr>px = Fin (x1 + dx), py = Fin (y1 + dy), pname = n1\<rparr>,
           \<lparr>px = Fin (x2 + dx), py = Fin (y2 + dy), pname = n2\<rparr>,
           \<lparr>px = Fin (x3 + dx), py = Fin (y3 + dy), pname = n3\<rparr>])"
  by (simp add: move_def)

lemma flip_fin:
  assumes "a \<noteq> 0 \<or> b \<noteq> 0"
  shows "flip \<lparr>la = Fin a, lb = Fin b, lc = Fin c\<rparr>
     [\<lparr>px = Fin x1, py = Fin y1, pname = n1\<rparr>,
      \<lparr>px = Fin x2, py = Fin y2, pname = n2\<rparr>,
      \<lparr>px = Fin x3, py = Fin y3, pname = n3\<rparr>] =
   (None, [\<lparr>px = Fin (2 * ((b * b * x1 - a * b * y1 - a * c) / (a * a + b * b)) - x1),
             py = Fin (2 * ((a * a * y1 - a * b * x1 - b * c) / (a * a + b * b)) - y1), pname = n1\<rparr>,
           \<lparr>px = Fin (2 * ((b * b * x2 - a * b * y2 - a * c) / (a * a + b * b)) - x2),
             py = Fin (2 * ((a * a * y2 - a * b * x2 - b * c) / (a * a + b * b)) - y2), pname = n2\<rparr>,
           \<lparr>px = Fin (2 * ((b * b * x3 - a * b * y3 - a * c) / (a * a + b * b)) - x3),
             py = Fin (2 * ((a * a * y3 - a * b * x3 - b * c) / (a * a + b * b)) - y3), pname = n3\<rparr>])"
  unfolding flip_def by (simp only: list.map flip_point_fin [OF assms])

lemma findIndex_None: "findIndex P vs = None \<longleftrightarrow> \<not> list_ex P vs"
  by (induction vs) auto

lemma strict_inequality_move:
  assumes "finite_triangle t"
  shows "strict_inequality (snd (move (Fin dx) (Fin dy) t)) = strict_inequality t"
proof -
  from assms(1) obtain x1 y1 n1 x2 y2 n2 x3 y3 n3 where
    t: "t = [\<lparr>px = Fin x1, py = Fin y1, pname = n1\<rparr>,
          \<lparr>px = Fin x2, py = Fin y2, pname = n2\<rparr>,
          \<lparr>px = Fin x3, py = Fin y3, pname = n3\<rparr>]"
    by (rule finite_triangleE)
  show ?thesis
    unfolding t by (simp only: move_fin snd_conv strict_inequality_fin translate_dist)
qed

lemma strict_inequality_flip:
  assumes "finite_triangle t" "a \<noteq> 0 \<or> b \<noteq> 0"
  shows "strict_inequality (snd (flip \<lparr>la = Fin a, lb = Fin b, lc = Fin c\<rparr> t)) = strict_inequality t"
proof -
  from assms(1) obtain x1 y1 n1 x2 y2 n2 x3 y3 n3 where
    t: "t = [\<lparr>px = Fin x1, py = Fin y1, pname = n1\<rparr>,
          \<lparr>px = Fin x2, py = Fin y2, pname = n2\<rparr>,
          \<lparr>px = Fin x3, py = Fin y3, pname = n3\<rparr>]"
    by (rule finite_triangleE)
  from assms(2) have nz: "a * a + b * b \<noteq> 0"
    by (simp add: sum_squares_eq_zero_iff)
  show ?thesis
    unfolding t
    by (simp only: flip_fin [OF assms(2)] snd_conv strict_inequality_fin reflect_dist [OF nz])
qed

lemma abc_ok: "finite_triangle abc" "strict_inequality abc"
  using sqrt_12500_bounds
  by (simp_all add: abc_def finite_triangle_def isFin_def strict_inequality_fin)


lemma small_int_Fin: "small_int v \<Longrightarrow> \<exists>r. v = Fin r"
  by (cases v) (simp_all add: small_int_def)

lemma small_int_isFin: "small_int v \<Longrightarrow> isFin v"
  by (cases v) (simp_all add: small_int_def isFin_def)

lemma small_int_triangle_finite: "small_int_triangle t \<Longrightarrow> finite_triangle t"
  by (simp add: small_int_triangle_def finite_triangle_def small_int_point_def
        list_all_iff small_int_isFin)

lemma flip_point_foot:
  "flip_point l p = p\<lparr>px := jsub (jmul (Fin 2) (fst (foot l p))) (px p),
                        py := jsub (jmul (Fin 2) (snd (foot l p))) (py p)\<rparr>"
  by (simp add: flip_point_def foot_def Let_def)

lemma exact_flip_line:
  assumes "exact_flip l p"
  obtains a b c where "l = \<lparr>la = Fin a, lb = Fin b, lc = Fin c\<rparr>" "a \<noteq> 0 \<or> b \<noteq> 0"
proof -
  from assms obtain a b c where "la l = Fin a" "lb l = Fin b" "lc l = Fin c"
    unfolding exact_flip_def using small_int_Fin by blast
  moreover with assms have "a \<noteq> 0 \<or> b \<noteq> 0" by (auto simp add: exact_flip_def)
  ultimately show thesis using that by (cases l) auto
qed

lemma exact_flip_point:
  assumes "exact_flip l p"
  obtains x y where "p = \<lparr>px = Fin x, py = Fin y, pname = pname p\<rparr>"
proof -
  from assms obtain x y where "px p = Fin x" "py p = Fin y"
    unfolding exact_flip_def small_int_point_def using small_int_Fin by blast
  then show thesis using that by (cases p) auto
qed

lemma findIndex_Some:
  "findIndex P vs = Some i \<Longrightarrow> i < length vs \<and> P (vs ! i) \<and> (\<forall>j<i. \<not> P (vs ! j))"
proof (induction vs arbitrary: i)
  case Nil
  then show ?case by simp
next
  case (Cons v vs)
  show ?case
  proof (cases "P v")
    case True
    with Cons.prems show ?thesis by simp
  next
    case False
    with Cons.prems obtain k where k: "findIndex P vs = Some k" "i = Suc k"
      by auto
    from Cons.IH [OF k(1)] False show ?thesis
      unfolding k(2) by (auto simp add: less_Suc_eq_0_disj)
  qed
qed

lemma findIndex_found: "list_ex P vs \<Longrightarrow> \<exists>i. findIndex P vs = Some i"
  using findIndex_None [of P vs] by (cases "findIndex P vs") simp_all

lemma same_side_lengths_move:
  assumes "finite_triangle t"
  shows "same_side_lengths t (snd (move (Fin dx) (Fin dy) t))"
proof -
  from assms obtain x1 y1 n1 x2 y2 n2 x3 y3 n3 where
    t: "t = [\<lparr>px = Fin x1, py = Fin y1, pname = n1\<rparr>,
          \<lparr>px = Fin x2, py = Fin y2, pname = n2\<rparr>,
          \<lparr>px = Fin x3, py = Fin y3, pname = n3\<rparr>]"
    by (rule finite_triangleE)
  show ?thesis
    unfolding t same_side_lengths_def move_fin snd_conv
    by (simp add: distance_fin)
qed

lemma same_side_lengths_flip:
  assumes "finite_triangle t" "a \<noteq> 0 \<or> b \<noteq> 0"
  shows "same_side_lengths t (snd (flip \<lparr>la = Fin a, lb = Fin b, lc = Fin c\<rparr> t))"
proof -
  from assms(1) obtain x1 y1 n1 x2 y2 n2 x3 y3 n3 where
    t: "t = [\<lparr>px = Fin x1, py = Fin y1, pname = n1\<rparr>,
          \<lparr>px = Fin x2, py = Fin y2, pname = n2\<rparr>,
          \<lparr>px = Fin x3, py = Fin y3, pname = n3\<rparr>]"
    by (rule finite_triangleE)
  from assms(2) have nz: "a * a + b * b \<noteq> 0"
    by (simp add: sum_squares_eq_zero_iff)
  have nth: "[u, v, w] ! 0 = u" "[u, v, w] ! 1 = v" "[u, v, w] ! 2 = w" for u v w :: point
    by simp_all
  show ?thesis
    unfolding t same_side_lengths_def flip_fin [OF assms(2)] snd_conv
    by (simp only: nth distance_fin reflect_dist [OF nz] simp_thms)
qed

lemma abc_small: "small_int_triangle abc"
  by (simp add: abc_def small_int_triangle_def small_int_point_def small_int_def)

lemma abc_exact_flip: "list_all (exact_flip \<lparr>la = Fin 1, lb = Fin 0, lc = Fin (- 100)\<rparr>) abc"
  by (simp add: abc_def exact_flip_def small_int_def small_int_point_def integral_def foot_def
        num_defs Let_def)


text \<open>
  C2, as amended: no transform validates its result. \<^verbatim>\<open>movePoint\<close> fails, leaving the
  vertex set unchanged, exactly when no vertex has the given name; otherwise it succeeds
  and changes the coordinates of the first vertex of that name and nothing else, whatever
  shape results; when the coordinates of that vertex and the deltas are integers of
  magnitude at most 32768, the new coordinates are the sums. \<^verbatim>\<open>move\<close>, \<^verbatim>\<open>rotate\<close> and \<^verbatim>\<open>flip\<close> never fail, for any arguments. When the
  coordinates and the deltas are integers of magnitude at most 32768, \<^verbatim>\<open>move\<close> leaves
  the three side lengths, and with them the truth of the strict triangle inequality,
  unchanged. When the coordinates and the coefficients of the line are such integers, a
  and b are not both zero and the quotients \<^verbatim>\<open>x1\<close> and \<^verbatim>\<open>y1\<close> of every vertex are
  integers, \<^verbatim>\<open>flip\<close> leaves them unchanged too.
\<close>

theorem transforms_without_validation:
  "(\<not> list_ex (\<lambda>p. pname p = nm) t \<longrightarrow>
      movePoint nm deltaX deltaY t = (Some UnknownVertex, t))
   \<and> (list_ex (\<lambda>p. pname p = nm) t \<longrightarrow>
        (\<exists>i. i < length t \<and> pname (t ! i) = nm \<and> (\<forall>j<i. pname (t ! j) \<noteq> nm)
           \<and> fst (movePoint nm deltaX deltaY t) = None
           \<and> length (snd (movePoint nm deltaX deltaY t)) = length t
           \<and> (\<forall>j<length t. j \<noteq> i \<longrightarrow> snd (movePoint nm deltaX deltaY t) ! j = t ! j)
           \<and> pname (snd (movePoint nm deltaX deltaY t) ! i) = nm
           \<and> (small_int_point (t ! i) \<and> small_int deltaX \<and> small_int deltaY \<longrightarrow>
                px (snd (movePoint nm deltaX deltaY t) ! i) = jadd (px (t ! i)) deltaX
              \<and> py (snd (movePoint nm deltaX deltaY t) ! i) = jadd (py (t ! i)) deltaY)))
   \<and> fst (move deltaX deltaY t) = None
   \<and> fst (rotate_t angle t) = None
   \<and> fst (flip l t) = None
   \<and> (small_int_triangle t \<and> small_int deltaX \<and> small_int deltaY \<longrightarrow>
        same_side_lengths t (snd (move deltaX deltaY t))
      \<and> strict_inequality (snd (move deltaX deltaY t)) = strict_inequality t)
   \<and> (small_int_triangle t \<and> list_all (exact_flip l) t \<longrightarrow>
        same_side_lengths t (snd (flip l t))
      \<and> strict_inequality (snd (flip l t)) = strict_inequality t)"
proof (intro conjI impI)
  assume "\<not> list_ex (\<lambda>p. pname p = nm) t"
  then have "findIndex (\<lambda>p. pname p = nm) t = None" by (simp add: findIndex_None)
  then show "movePoint nm deltaX deltaY t = (Some UnknownVertex, t)"
    by (simp add: movePoint_def)
next
  assume "list_ex (\<lambda>p. pname p = nm) t"
  then obtain i where i: "findIndex (\<lambda>p. pname p = nm) t = Some i"
    using findIndex_found by blast
  from findIndex_Some [OF i]
  have f: "i < length t" "pname (t ! i) = nm" "\<forall>j<i. pname (t ! j) \<noteq> nm"
    by simp_all
  from i have m: "movePoint nm deltaX deltaY t =
      (None, t[i := (t ! i)\<lparr>px := jadd (px (t ! i)) deltaX, py := jadd (py (t ! i)) deltaY\<rparr>])"
    by (simp add: movePoint_def)
  from f(1,2) have
    "fst (movePoint nm deltaX deltaY t) = None"
    "length (snd (movePoint nm deltaX deltaY t)) = length t"
    "\<forall>j<length t. j \<noteq> i \<longrightarrow> snd (movePoint nm deltaX deltaY t) ! j = t ! j"
    "pname (snd (movePoint nm deltaX deltaY t) ! i) = nm"
    "small_int_point (t ! i) \<and> small_int deltaX \<and> small_int deltaY \<longrightarrow>
                px (snd (movePoint nm deltaX deltaY t) ! i) = jadd (px (t ! i)) deltaX
              \<and> py (snd (movePoint nm deltaX deltaY t) ! i) = jadd (py (t ! i)) deltaY"
    unfolding m by simp_all
  with f show "\<exists>i. i < length t \<and> pname (t ! i) = nm \<and> (\<forall>j<i. pname (t ! j) \<noteq> nm)
           \<and> fst (movePoint nm deltaX deltaY t) = None
           \<and> length (snd (movePoint nm deltaX deltaY t)) = length t
           \<and> (\<forall>j<length t. j \<noteq> i \<longrightarrow> snd (movePoint nm deltaX deltaY t) ! j = t ! j)
           \<and> pname (snd (movePoint nm deltaX deltaY t) ! i) = nm
           \<and> (small_int_point (t ! i) \<and> small_int deltaX \<and> small_int deltaY \<longrightarrow>
                px (snd (movePoint nm deltaX deltaY t) ! i) = jadd (px (t ! i)) deltaX
              \<and> py (snd (movePoint nm deltaX deltaY t) ! i) = jadd (py (t ! i)) deltaY)"
    by blast
next
  show "fst (move deltaX deltaY t) = None" by (simp add: move_def)
  show "fst (rotate_t angle t) = None" by (simp add: rotate_t_def Let_def)
  show "fst (flip l t) = None" by (simp add: flip_def)
next
  assume a: "small_int_triangle t \<and> small_int deltaX \<and> small_int deltaY"
  then obtain dx dy where d: "deltaX = Fin dx" "deltaY = Fin dy"
    using small_int_Fin by blast
  from a have f: "finite_triangle t" by (simp add: small_int_triangle_finite)
  show "same_side_lengths t (snd (move deltaX deltaY t))"
    unfolding d using f by (rule same_side_lengths_move)
  show "strict_inequality (snd (move deltaX deltaY t)) = strict_inequality t"
    unfolding d using f by (rule strict_inequality_move)
next
  assume a: "small_int_triangle t \<and> list_all (exact_flip l) t"
  then have f: "finite_triangle t" by (simp add: small_int_triangle_finite)
  from a obtain p where "p \<in> set t" "exact_flip l p"
    by (cases t) (auto simp add: small_int_triangle_def)
  then obtain a' b c where l: "l = \<lparr>la = Fin a', lb = Fin b, lc = Fin c\<rparr>"
    and ab: "a' \<noteq> 0 \<or> b \<noteq> 0"
    using exact_flip_line by blast
  show "same_side_lengths t (snd (flip l t))"
    unfolding l using f ab by (rule same_side_lengths_flip)
  show "strict_inequality (snd (flip l t)) = strict_inequality t"
    unfolding l using f ab by (rule strict_inequality_flip)
qed

theorem transforms_without_validation_witness:
  "movePoint ''Z'' (Fin 10) (Fin 10) abc = (Some UnknownVertex, abc)
   \<and> fst (movePoint ''A'' (Fin 10) (Fin 10) abc) = None
   \<and> px (snd (movePoint ''A'' (Fin 10) (Fin 10) abc) ! 0) = Fin 80
   \<and> py (snd (movePoint ''A'' (Fin 10) (Fin 10) abc) ! 0) = Fin 30
   \<and> small_int_triangle abc \<and> small_int (Fin 10)
   \<and> list_all (exact_flip \<lparr>la = Fin 1, lb = Fin 0, lc = Fin (- 100)\<rparr>) abc
   \<and> strict_inequality abc
   \<and> same_side_lengths abc (snd (move (Fin 10) (Fin 10) abc))
   \<and> strict_inequality (snd (move (Fin 10) (Fin 10) abc))
   \<and> same_side_lengths abc (snd (flip \<lparr>la = Fin 1, lb = Fin 0, lc = Fin (- 100)\<rparr> abc))
   \<and> strict_inequality (snd (flip \<lparr>la = Fin 1, lb = Fin 0, lc = Fin (- 100)\<rparr> abc))"
proof -
  let ?l = "\<lparr>la = Fin 1, lb = Fin 0, lc = Fin (- 100)\<rparr>"
  have z: "\<not> list_ex (\<lambda>p. pname p = ''Z'') abc" by (simp add: abc_def)
  have a: "list_ex (\<lambda>p. pname p = ''A'') abc" by (simp add: abc_def)
  have s: "small_int (Fin 10)" by (simp add: small_int_def)
  note w1 = transforms_without_validation [of "''Z''" abc "Fin 10" "Fin 10" "Fin 0" ?l]
  note w2 = transforms_without_validation [of "''A''" abc "Fin 10" "Fin 10" "Fin 0" ?l]
  from w1 z have m1: "movePoint ''Z'' (Fin 10) (Fin 10) abc = (Some UnknownVertex, abc)"
    by blast
  from w2 a obtain i where i: "i < length abc" "pname (abc ! i) = ''A''"
    and m2: "fst (movePoint ''A'' (Fin 10) (Fin 10) abc) = None"
    and v: "small_int_point (abc ! i) \<and> small_int (Fin 10) \<and> small_int (Fin 10) \<longrightarrow>
        px (snd (movePoint ''A'' (Fin 10) (Fin 10) abc) ! i) = jadd (px (abc ! i)) (Fin 10)
      \<and> py (snd (movePoint ''A'' (Fin 10) (Fin 10) abc) ! i) = jadd (py (abc ! i)) (Fin 10)"
    by blast
  from i have i0: "i = 0"
    by (auto simp add: abc_def less_Suc_eq numeral_3_eq_3)
  have "small_int_point (abc ! 0)"
    by (simp add: abc_def small_int_point_def small_int_def)
  with v s have m3: "px (snd (movePoint ''A'' (Fin 10) (Fin 10) abc) ! 0) = Fin 80"
    "py (snd (movePoint ''A'' (Fin 10) (Fin 10) abc) ! 0) = Fin 30"
    unfolding i0 by (simp_all add: abc_def)
  from w1 abc_small s abc_exact_flip have
    "same_side_lengths abc (snd (move (Fin 10) (Fin 10) abc))"
    "strict_inequality (snd (move (Fin 10) (Fin 10) abc)) = strict_inequality abc"
    "same_side_lengths abc (snd (flip ?l abc))"
    "strict_inequality (snd (flip ?l abc)) = strict_inequality abc"
    by blast+
  with m1 m2 m3 abc_small s abc_exact_flip abc_ok(2) show ?thesis by simp
qed

text \<open>
  \<^verbatim>\<open>movePoint\<close> does not validate: moving A of the default triangle down by 100 succeeds
  and leaves the three vertices on one line.
\<close>

theorem movePoint_unvalidated:
  "strict_inequality abc
   \<and> movePoint ''A'' (Fin 0) (Fin 100) abc =
       (None, [\<lparr>px = Fin 70, py = Fin 120, pname = ''A''\<rparr>,
               \<lparr>px = Fin 20, py = Fin 120, pname = ''B''\<rparr>,
               \<lparr>px = Fin 120, py = Fin 120, pname = ''C''\<rparr>])
   \<and> \<not> strict_inequality [\<lparr>px = Fin 70, py = Fin 120, pname = ''A''\<rparr>,
               \<lparr>px = Fin 20, py = Fin 120, pname = ''B''\<rparr>,
               \<lparr>px = Fin 120, py = Fin 120, pname = ''C''\<rparr>]"
  using abc_ok(2)
  by (simp add: abc_def movePoint_def strict_inequality_fin)


section \<open>Reflection\<close>

text \<open>
  C7, as amended: \<^verbatim>\<open>flip\<close> never fails and performs no validation; it maps every vertex
  by the same formula. When the coefficients a, b, c of the line and the coordinates of a
  vertex are integers of magnitude at most 32768, a and b are not both zero, and the
  quotients \<^verbatim>\<open>x1\<close> and \<^verbatim>\<open>y1\<close> are integers, so that every floating-point operation is
  exact, the vertex goes to its mirror image across \<open>a x + b y + c = 0\<close>: the midpoint of
  the vertex and its image lies on the line, and the displacement is parallel to
  \<open>(a, b)\<close>.
\<close>

theorem flip_exact_mirror_image:
  "fst (flip l t) = None
   \<and> snd (flip l t) = map (flip_point l) t
   \<and> (exact_flip l p \<longrightarrow>
        (\<exists>a b c x y x' y'.
            l = \<lparr>la = Fin a, lb = Fin b, lc = Fin c\<rparr>
          \<and> p = \<lparr>px = Fin x, py = Fin y, pname = pname p\<rparr>
          \<and> flip_point l p = \<lparr>px = Fin x', py = Fin y', pname = pname p\<rparr>
          \<and> a * ((x + x') / 2) + b * ((y + y') / 2) + c = 0
          \<and> b * (x' - x) = a * (y' - y)))"
proof (intro conjI impI)
  show "fst (flip l t) = None" by (simp add: flip_def)
  show "snd (flip l t) = map (flip_point l) t" by (simp add: flip_def)
next
  assume e: "exact_flip l p"
  from e obtain a b c where l: "l = \<lparr>la = Fin a, lb = Fin b, lc = Fin c\<rparr>"
    and ab: "a \<noteq> 0 \<or> b \<noteq> 0"
    by (rule exact_flip_line)
  from e obtain x y where p: "p = \<lparr>px = Fin x, py = Fin y, pname = pname p\<rparr>"
    by (rule exact_flip_point)
  from ab have nz: "a * a + b * b \<noteq> 0"
    by (simp add: sum_squares_eq_zero_iff)
  have "flip_point l \<lparr>px = Fin x, py = Fin y, pname = pname p\<rparr> =
     \<lparr>px = Fin (2 * ((b * b * x - a * b * y - a * c) / (a * a + b * b)) - x),
      py = Fin (2 * ((a * a * y - a * b * x - b * c) / (a * a + b * b)) - y), pname = pname p\<rparr>"
    unfolding l by (rule flip_point_fin [OF ab])
  then have f: "flip_point l p =
     \<lparr>px = Fin (2 * ((b * b * x - a * b * y - a * c) / (a * a + b * b)) - x),
      py = Fin (2 * ((a * a * y - a * b * x - b * c) / (a * a + b * b)) - y), pname = pname p\<rparr>"
    using p by simp
  from l p f mirror_on_axis [OF nz, where c = c and x = x and y = y]
  show "\<exists>a b c x y x' y'.
            l = \<lparr>la = Fin a, lb = Fin b, lc = Fin c\<rparr>
          \<and> p = \<lparr>px = Fin x, py = Fin y, pname = pname p\<rparr>
          \<and> flip_point l p = \<lparr>px = Fin x', py = Fin y', pname = pname p\<rparr>
          \<and> a * ((x + x') / 2) + b * ((y + y') / 2) + c = 0
          \<and> b * (x' - x) = a * (y' - y)"
    by blast
qed

theorem flip_exact_mirror_image_witness:
  "exact_flip \<lparr>la = Fin 1, lb = Fin 0, lc = Fin (- 100)\<rparr>
      \<lparr>px = Fin 70, py = Fin 20, pname = ''A''\<rparr>
   \<and> flip_point \<lparr>la = Fin 1, lb = Fin 0, lc = Fin (- 100)\<rparr>
        \<lparr>px = Fin 70, py = Fin 20, pname = ''A''\<rparr> = \<lparr>px = Fin 130, py = Fin 20, pname = ''A''\<rparr>"
proof -
  let ?l = "\<lparr>la = Fin 1, lb = Fin 0, lc = Fin (- 100)\<rparr>"
  let ?p = "\<lparr>px = Fin 70, py = Fin 20, pname = ''A''\<rparr>"
  have e: "exact_flip ?l ?p"
    by (simp add: exact_flip_def small_int_def small_int_point_def integral_def foot_def
          num_defs Let_def)
  from flip_exact_mirror_image [of ?l abc ?p] e
  obtain a b c x y x' y' where
    l: "?l = \<lparr>la = Fin a, lb = Fin b, lc = Fin c\<rparr>"
    and p: "?p = \<lparr>px = Fin x, py = Fin y, pname = pname ?p\<rparr>"
    and f: "flip_point ?l ?p = \<lparr>px = Fin x', py = Fin y', pname = pname ?p\<rparr>"
    and m: "a * ((x + x') / 2) + b * ((y + y') / 2) + c = 0"
    and n: "b * (x' - x) = a * (y' - y)"
    by blast
  from l have "a = 1" "b = 0" "c = - 100" by simp_all
  moreover from p have "x = 70" "y = 20" by simp_all
  ultimately have "x' = 130" "y' = 20" using m n by simp_all
  with f e show ?thesis by simp
qed

text \<open>
  With \<open>a = b = 0\<close> \<^verbatim>\<open>flip\<close> raises no error: every coordinate becomes \<^verbatim>\<open>NaN\<close>.
\<close>

theorem flip_degenerate_line:
  "flip \<lparr>la = Fin 0, lb = Fin 0, lc = Fin 1\<rparr> abc =
     (None, [\<lparr>px = NaN, py = NaN, pname = ''A''\<rparr>,
             \<lparr>px = NaN, py = NaN, pname = ''B''\<rparr>,
             \<lparr>px = NaN, py = NaN, pname = ''C''\<rparr>])"
  by (simp add: abc_def flip_def flip_point_def num_defs Let_def)


section \<open>Failure of \<^verbatim>\<open>setSideLength\<close> leaves the vertices in place\<close>

lemma upt_3: "[0..<3] = [0, 1, 2]"
  by (simp add: upt_rec)

lemma opposite_pair_ok:
  assumes "getPointsByOppositeVertex [A, B, C] key = Inr ps"
  shows "pair_ok (pname A) (pname B) (pname C) (elem ps 0) (elem ps 1)"
proof -
  define v where "v = toUpperCase key"
  from assms have ex: "pname A = v \<or> pname B = v \<or> pname C = v"
    and ps: "ps = filter (\<lambda>i. pname ([A, B, C] ! i) \<noteq> v) [0, 1, 2]"
    by (auto simp add: getPointsByOppositeVertex_def Let_def upt_3 v_def split: if_splits)
  from ex show ?thesis
    unfolding ps
    by (cases "pname A = v"; cases "pname B = v"; cases "pname C = v")
       (simp_all add: pair_ok_def)
qed

lemma adjacent_pair_ok:
  assumes "getPointsByAdjacentVertex [A, B, C] key = Inr ps"
  shows "pair_ok (pname A) (pname B) (pname C) (elem ps 0) (elem ps 1)"
proof -
  define S where "S = set (name_segments key)"
  from assms have ps: "ps = filter (\<lambda>i. pname ([A, B, C] ! i) \<in> S) [0, 1, 2]"
    and len: "length ps = 2"
    by (auto simp add: getPointsByAdjacentVertex_def Let_def upt_3 S_def split: if_splits)
  from len show ?thesis
    unfolding ps
    by (cases "pname A \<in> S"; cases "pname B \<in> S"; cases "pname C \<in> S")
       (auto simp add: pair_ok_def)
qed

lemma getPointsByName_pair_ok:
  assumes "getPointsByName [A, B, C] key = Inr ps"
  shows "pair_ok (pname A) (pname B) (pname C) (elem ps 0) (elem ps 1)"
proof (cases "list_ex is_lower key")
  case True
  with assms have "getPointsByOppositeVertex [A, B, C] key = Inr ps"
    by (simp add: getPointsByName_def)
  then show ?thesis by (rule opposite_pair_ok)
next
  case False
  with assms have "getPointsByAdjacentVertex [A, B, C] key = Inr ps"
    by (simp add: getPointsByName_def)
  then show ?thesis by (rule adjacent_pair_ok)
qed


lemma three_edges_defined:
  assumes "pair_ok na nb nc p1 p2" "pair_ok na nb nc q1 q2" "pair_ok na nb nc r1 r2"
    and "\<not> ((p1 = q1 \<and> p2 = q2) \<or> (p2 = q1 \<and> p1 = q2))"
    and "\<not> ((p1 = r1 \<and> p2 = r2) \<or> (p2 = r1 \<and> p1 = r2))"
    and "\<not> ((q1 = r1 \<and> q2 = r2) \<or> (q2 = r1 \<and> q1 = r2))"
  shows "p1 \<noteq> None \<and> p2 \<noteq> None \<and> q1 \<noteq> None \<and> q2 \<noteq> None \<and> r1 \<noteq> None \<and> r2 \<noteq> None"
proof (cases "na = nb \<or> nb = nc \<or> na = nc")
  case False
  with assms(1-3) show ?thesis by (auto simp add: pair_ok_def)
next
  case True
  then consider "na = nb \<and> nb = nc" | "na = nb \<and> nb \<noteq> nc" | "nb = nc \<and> na \<noteq> nb"
    | "na = nc \<and> nb \<noteq> na"
    by blast
  then show ?thesis
  proof cases
    case 1
    with assms(1-3) have "p1 = None \<and> p2 = None \<and> q1 = None \<and> q2 = None"
      by (auto simp add: pair_ok_def)
    with assms(4) show ?thesis by simp
  next
    case 2
    with assms(1-3) have
      "(p1 = Some 0 \<and> p2 = Some 1) \<or> (p1 = Some 2 \<and> p2 = None)"
      "(q1 = Some 0 \<and> q2 = Some 1) \<or> (q1 = Some 2 \<and> q2 = None)"
      "(r1 = Some 0 \<and> r2 = Some 1) \<or> (r1 = Some 2 \<and> r2 = None)"
      by (auto simp add: pair_ok_def)
    with assms(4-6) show ?thesis by auto
  next
    case 3
    with assms(1-3) have
      "(p1 = Some 1 \<and> p2 = Some 2) \<or> (p1 = Some 0 \<and> p2 = None)"
      "(q1 = Some 1 \<and> q2 = Some 2) \<or> (q1 = Some 0 \<and> q2 = None)"
      "(r1 = Some 1 \<and> r2 = Some 2) \<or> (r1 = Some 0 \<and> r2 = None)"
      by (auto simp add: pair_ok_def)
    with assms(4-6) show ?thesis by auto
  next
    case 4
    with assms(1-3) have
      "(p1 = Some 0 \<and> p2 = Some 2) \<or> (p1 = Some 1 \<and> p2 = None)"
      "(q1 = Some 0 \<and> q2 = Some 2) \<or> (q1 = Some 1 \<and> q2 = None)"
      "(r1 = Some 0 \<and> r2 = Some 2) \<or> (r1 = Some 1 \<and> r2 = None)"
      by (auto simp add: pair_ok_def)
    with assms(4-6) show ?thesis by auto
  qed
qed

lemma edges_distinct_snoc:
  "edges_distinct (options @ [new]) \<longleftrightarrow>
     edges_distinct options \<and> (\<forall>option \<in> set options. \<not> same_edge option new)"
  by (induction options) auto

lemma merge_loop_invariant:
  assumes "checkAndMergeSides_loop [A, B, C] sides options = Inr res"
    and "\<forall>option \<in> set options. pair_ok (pname A) (pname B) (pname C) (op1 option) (op2 option)"
    and "edges_distinct options"
  shows "(\<forall>option \<in> set res. pair_ok (pname A) (pname B) (pname C) (op1 option) (op2 option))
       \<and> edges_distinct res"
  using assms
proof (induction sides arbitrary: options)
  case Nil
  then show ?case by simp
next
  case (Cons kv rest)
  obtain key len where kv: "kv = (key, len)" by (cases kv)
  from Cons.prems(1) obtain ps where ps: "getPointsByName [A, B, C] key = Inr ps"
    unfolding kv by (cases "getPointsByName [A, B, C] key") simp_all
  let ?P = "\<lambda>option. (op1 option = elem ps 0 \<and> op2 option = elem ps 1) \<or>
                       (op2 option = elem ps 0 \<and> op1 option = elem ps 1)"
  show ?case
  proof (cases "find ?P options")
    case None
    let ?new = "\<lparr>oname = key, olength = len, op1 = elem ps 0, op2 = elem ps 1\<rparr>"
    from None have nf: "\<forall>option \<in> set options. \<not> ?P option"
      by (simp add: find_None_iff)
    from Cons.prems(1) None have run: "checkAndMergeSides_loop [A, B, C] rest (options @ [?new]) = Inr res"
      unfolding kv by (simp add: ps Let_def)
    have ok: "\<forall>option \<in> set (options @ [?new]).
        pair_ok (pname A) (pname B) (pname C) (op1 option) (op2 option)"
      using Cons.prems(2) getPointsByName_pair_ok [OF ps] by auto
    have dist: "edges_distinct (options @ [?new])"
      using Cons.prems(3) nf by (simp add: edges_distinct_snoc same_edge_def)
    from Cons.IH [OF run ok dist] show ?thesis .
  next
    case (Some found)
    from Cons.prems(1) Some have run: "checkAndMergeSides_loop [A, B, C] rest options = Inr res"
      unfolding kv by (simp add: ps Let_def split: if_splits)
    from Cons.IH [OF run Cons.prems(2) Cons.prems(3)] show ?thesis .
  qed
qed

lemma merged_three_defined:
  assumes "checkAndMergeSides [A, B, C] sides = Inr options" and "length options = 3"
  shows "\<forall>option \<in> set options. op1 option \<noteq> None \<and> op2 option \<noteq> None"
proof -
  from assms(1) have inv:
    "(\<forall>option \<in> set options. pair_ok (pname A) (pname B) (pname C) (op1 option) (op2 option))
       \<and> edges_distinct options"
    unfolding checkAndMergeSides_def by (rule merge_loop_invariant) simp_all
  from assms(2) obtain o1 o2 o3 where os: "options = [o1, o2, o3]"
    by (auto simp add: length_Suc_conv numeral_3_eq_3)
  from inv have
    "pair_ok (pname A) (pname B) (pname C) (op1 o1) (op2 o1)"
    "pair_ok (pname A) (pname B) (pname C) (op1 o2) (op2 o2)"
    "pair_ok (pname A) (pname B) (pname C) (op1 o3) (op2 o3)"
    "\<not> ((op1 o1 = op1 o2 \<and> op2 o1 = op2 o2) \<or> (op2 o1 = op1 o2 \<and> op1 o1 = op2 o2))"
    "\<not> ((op1 o1 = op1 o3 \<and> op2 o1 = op2 o3) \<or> (op2 o1 = op1 o3 \<and> op1 o1 = op2 o3))"
    "\<not> ((op1 o2 = op1 o3 \<and> op2 o2 = op2 o3) \<or> (op2 o2 = op1 o3 \<and> op1 o2 = op2 o3))"
    unfolding os by (simp_all add: same_edge_def)
  from three_edges_defined [OF this] show ?thesis unfolding os by simp
qed

lemma length_slide: "length (slide t fixed slided d len) = length t"
  by (simp add: slide_def Let_def)

lemma third_point_exists:
  "find (\<lambda>i. i \<noteq> p \<and> i \<noteq> q) [0, 1, 2 :: nat] \<noteq> None"
  by auto

lemma third_point_after_slide:
  "length t = 3 \<Longrightarrow>
     (find (\<lambda>i. i \<noteq> p \<and> i \<noteq> q) [0..<length (slide t fixed slided d len)] = None) = False"
  using third_point_exists [of p q] by (simp only: length_slide upt_3)

lemma setOneSideLength_shape:
  "length t = 3 \<Longrightarrow>
     fst (setOneSideLength ts option t) = None \<or> snd (setOneSideLength ts option t) = t"
  by (simp add: setOneSideLength_def Let_def third_point_after_slide
        split: option.split sum.split)

lemma setTwoSidesLength_shape:
  "fst (setTwoSidesLength ts options t) = None \<or> snd (setTwoSidesLength ts options t) = t"
  by (simp add: setTwoSidesLength_def Let_def split: option.split sum.split)

lemma other_end_defined:
  "op1 option \<noteq> None \<Longrightarrow> op2 option \<noteq> None \<Longrightarrow> other_end option v \<noteq> None"
  by (simp add: other_end_def)

lemma findIndex_less: "findIndex P vs = Some i \<Longrightarrow> i < length vs"
  by (induction vs arbitrary: i) (auto split: if_splits)

lemma setAllSidesLength_atomic:
  assumes "length t = 3" and "length options = 3"
    and defined: "\<forall>option \<in> set options. op1 option \<noteq> None \<and> op2 option \<noteq> None"
    and "fst (setAllSidesLength ts options t) \<noteq> None"
  shows "snd (setAllSidesLength ts options t) = t"
proof (cases "fails_inequality ts (olength (options ! 0)) (olength (options ! 1))
           (olength (options ! 2))")
  case True
  then show ?thesis by (simp add: setAllSidesLength_def)
next
  case False
  let ?fixed = "sort_cmp (\<lambda>i j. cmp_x_then_y (t ! i) (t ! j)) [0..<length t] ! 0"
  let ?slided = "sort_cmp (\<lambda>i j. cmp_y_then_x (t ! i) (t ! j))
                        (filter (\<lambda>i. i \<noteq> ?fixed) [0..<length t]) ! 0"
  let ?P = "\<lambda>option.
                   (op1 option = Some ?fixed \<and> op2 option = Some ?slided) \<or>
                   (op1 option = Some ?slided \<and> op2 option = Some ?fixed)"
  show ?thesis
  proof (cases "findIndex ?P options")
    case None
    then show ?thesis
      by (simp only: setAllSidesLength_def Let_def False if_False option.case snd_conv)
  next
    case (Some index)
    let ?d = "jsqrt (jadd (jsq (jsub (px (t ! ?slided)) (px (t ! ?fixed))))
                                     (jsq (jsub (py (t ! ?slided)) (py (t ! ?fixed)))))"
    let ?t1 = "slide t ?fixed ?slided ?d (olength (options ! index))"
    from assms(2) obtain o1 o2 o3 where os: "options = [o1, o2, o3]"
      by (auto simp add: length_Suc_conv numeral_3_eq_3)
    from Some have "index < 3" using findIndex_less assms(2) by fastforce
    then have "index = 0 \<or> index = 1 \<or> index = 2" by arith
    then have mem: "splice1 index options ! 0 \<in> set options"
      "splice1 index options ! 1 \<in> set options"
      unfolding os by (auto simp add: splice1_def)
    have "find (\<lambda>i. i \<noteq> ?fixed \<and> i \<noteq> ?slided) [0..<length ?t1] \<noteq> None"
      unfolding length_slide assms(1) upt_3 by (rule third_point_exists)
    then obtain moved where
      m: "find (\<lambda>i. i \<noteq> ?fixed \<and> i \<noteq> ?slided) [0..<length ?t1] = Some moved"
      by blast
    from mem defined have
      "other_end (splice1 index options ! 0) (Some moved) \<noteq> None"
      "other_end (splice1 index options ! 1) (Some moved) \<noteq> None"
      by (simp_all add: other_end_defined)
    then obtain q0 q1 where
      q0: "other_end (splice1 index options ! 0) (Some moved) = Some q0" and
      q1: "other_end (splice1 index options ! 1) (Some moved) = Some q1"
      by blast
    have "fst (setAllSidesLength ts options t) = None"
      by (simp only: setAllSidesLength_def Let_def False if_False Some m q0 q1 option.case
            fst_conv)
    with assms(4) show ?thesis by simp
  qed
qed



text \<open>
  C3: \<^verbatim>\<open>setSideLength\<close> is atomic on failure. For every argument and every triangle, if
  the call throws (a malformed side name, an unknown vertex, conflicting lengths for one
  edge, a failed triangle-inequality check, or a read of a property of \<^verbatim>\<open>undefined\<close>),
  the three vertices are exactly as before the call.
\<close>

theorem setSideLength_atomic:
  assumes "length t = 3" and "fst (setSideLength ts sides t) \<noteq> None"
  shows "snd (setSideLength ts sides t) = t"
proof (cases "checkAndMergeSides t sides")
  case (Inl e)
  then show ?thesis by (simp add: setSideLength_def)
next
  case (Inr options)
  from assms(1) obtain A B C where t: "t = [A, B, C]"
    by (auto simp add: length_Suc_conv numeral_3_eq_3)
  consider "length options = 1" | "length options = 2" | "length options = 3"
    | "length options \<noteq> 1 \<and> length options \<noteq> 2 \<and> length options \<noteq> 3"
    by blast
  then show ?thesis
  proof cases
    case 1
    with Inr have e: "setSideLength ts sides t = setOneSideLength ts (options ! 0) t"
      by (simp add: setSideLength_def)
    from setOneSideLength_shape [OF assms(1), of ts "options ! 0"] assms(2)
    show ?thesis unfolding e by blast
  next
    case 2
    with Inr have e: "setSideLength ts sides t = setTwoSidesLength ts options t"
      by (simp add: setSideLength_def)
    from setTwoSidesLength_shape [of ts options t] assms(2)
    show ?thesis unfolding e by blast
  next
    case 3
    with Inr have e: "setSideLength ts sides t = setAllSidesLength ts options t"
      by (simp add: setSideLength_def)
    from Inr have "checkAndMergeSides [A, B, C] sides = Inr options" by (simp only: t)
    from merged_three_defined [OF this 3]
    have "\<forall>option \<in> set options. op1 option \<noteq> None \<and> op2 option \<noteq> None" .
    from setAllSidesLength_atomic [OF assms(1) 3 this] assms(2)
    show ?thesis unfolding e by blast
  next
    case 4
    with Inr show ?thesis by (simp add: setSideLength_def)
  qed
qed

theorem setSideLength_atomic_witness:
  "length hl_10_6 = 3
   \<and> fst (setSideLength (\<lambda>r. []) [(''a'', Fin 90)] hl_10_6) = Some Degenerate
   \<and> snd (setSideLength (\<lambda>r. []) [(''a'', Fin 90)] hl_10_6) = hl_10_6"
proof -
  have l: "length hl_10_6 = 3" by (simp add: hl_10_6_def)
  have e: "fst (setSideLength (\<lambda>r. []) [(''a'', Fin 90)] hl_10_6) = Some Degenerate"
    by (simp add: one_edge_90)
  then have f: "fst (setSideLength (\<lambda>r. []) [(''a'', Fin 90)] hl_10_6) \<noteq> None"
    by simp
  from l e setSideLength_atomic [OF l f] show ?thesis by blast
qed

end
